theory Spec2Isabelle
  imports Complex_Main
begin

section \<open>PolyRoots: roots of monic polynomials with coefficients -1 and +1\<close>

text \<open>
  The development embeds \<^verbatim>\<open>src/main.py\<close>: the enumeration of the coefficient vectors,
  \<^verbatim>\<open>compute_roots\<close>, \<^verbatim>\<open>save_roots\<close>, \<^verbatim>\<open>heat_map\<close> and the input handlers of
  \<^verbatim>\<open>PolyRootFrame\<close>. Numbers are idealised: a Python \<^verbatim>\<open>int\<close> is an \<open>int\<close>, a
  double is a \<open>real\<close> and a complex double is a \<open>complex\<close>. Where the rounding of
  doubles decides a result, in the bin edges of the histogram, the rounded values are
  not computed but taken as a parameter.
\<close>

subsection \<open>Exceptions, log and the outside world\<close>

text \<open>
  The exceptions the code can meet, all of them subclasses of Python's \<^verbatim>\<open>Exception\<close>
  (the only class the handlers of \<^verbatim>\<open>main.py\<close> catch).
\<close>

datatype exn = ValueError | OSError | FileNotFoundError | LinAlgError | RuntimeError

datatype level = DEBUG | INFO | WARNING | ERROR

text \<open>
  A log record is its level and the constant part of its message; the values that the
  f-strings interpolate are left out.
\<close>

type_synonym log_entry = "level \<times> string"

text \<open>
  What a path holds: an array written by \<^verbatim>\<open>np.save\<close>, or bytes that are no array.
\<close>

datatype disk_file = NpyArray "complex list" | NotNpy

text \<open>
  The state outside the functions: the files, which paths can be written, the log
  written by \<^verbatim>\<open>logging\<close>, and the trace of the calls made to the progress callback.
\<close>

record world =
  files :: "string \<Rightarrow> disk_file option"
  writable :: "string \<Rightarrow> bool"
  log :: "log_entry list"
  calls :: "(int \<times> int) list"

definition logging :: "level \<Rightarrow> string \<Rightarrow> world \<Rightarrow> world" where
  "logging l msg w = w\<lparr>log := log w @ [(l, msg)]\<rparr>"

text \<open>
  A progress callback is called with \<open>(current, total)\<close> and either returns (\<open>None\<close>) or
  raises. \<open>invoke\<close> is the statement
  \<^verbatim>\<open>if progress_callback: progress_callback(current, total)\<close>; the call is recorded in
  the trace whether it returns or raises.
\<close>

type_synonym callback = "int \<Rightarrow> int \<Rightarrow> exn option"

definition invoke :: "callback option \<Rightarrow> int \<Rightarrow> int \<Rightarrow> world \<Rightarrow> (exn + unit) \<times> world" where
  "invoke cb current total_units w =
     (case cb of
        None \<Rightarrow> (Inr (), w)
      | Some f \<Rightarrow>
          (let w1 = w\<lparr>calls := calls w @ [(current, total_units)]\<rparr>
           in case f current total_units of
                None \<Rightarrow> (Inr (), w1)
              | Some e \<Rightarrow> (Inl e, w1)))"

subsection \<open>numpy's file functions\<close>

text \<open>
  \<^verbatim>\<open>np.save(file, arr)\<close> appends \<^verbatim>\<open>.npy\<close> to a file name that does not end with it,
  and raises an \<^verbatim>\<open>OSError\<close> when the file cannot be written. \<^verbatim>\<open>np.load(file)\<close> raises
  \<^verbatim>\<open>FileNotFoundError\<close> for a missing file and \<^verbatim>\<open>ValueError\<close> for a file that is no
  array. Both belong to numpy, not to the repository.
\<close>

definition endswith :: "string \<Rightarrow> string \<Rightarrow> bool" where
  "endswith s suffix = (length suffix \<le> length s \<and> drop (length s - length suffix) s = suffix)"

definition npy_name :: "string \<Rightarrow> string" where
  "npy_name path = (if endswith path ''.npy'' then path else path @ ''.npy'')"

definition np_save :: "string \<Rightarrow> complex list \<Rightarrow> world \<Rightarrow> (exn + unit) \<times> world" where
  "np_save path arr w =
     (if writable w (npy_name path)
      then (Inr (), w\<lparr>files := (files w)(npy_name path \<mapsto> NpyArray arr)\<rparr>)
      else (Inl OSError, w))"

definition np_load :: "string \<Rightarrow> world \<Rightarrow> exn + complex list" where
  "np_load path w =
     (case files w path of
        None \<Rightarrow> Inl FileNotFoundError
      | Some NotNpy \<Rightarrow> Inl ValueError
      | Some (NpyArray arr) \<Rightarrow> Inr arr)"

definition np_concatenate :: "'a list list \<Rightarrow> exn + 'a list" where
  "np_concatenate arrays = (if arrays = [] then Inl ValueError else Inr (concat arrays))"

subsection \<open>Enumerating the coefficient vectors\<close>

text \<open>
  \<^verbatim>\<open>itertools.product(pool, repeat=n)\<close>, as its documentation defines it:
  \<^verbatim>\<open>result = [[]]; for pool in pools: result = [x+[y] for x in result for y in pool]\<close>.
\<close>

fun product_repeat :: "'a list \<Rightarrow> nat \<Rightarrow> 'a list list" where
  "product_repeat pool 0 = [[]]"
| "product_repeat pool (Suc n) =
     concat (map (\<lambda>x. map (\<lambda>y. x @ [y]) pool) (product_repeat pool n))"

text \<open>
  \<^verbatim>\<open>((1,) + combo for combo in product([-1, 1], repeat=degree))\<close>
\<close>

definition coeff_combinations :: "nat \<Rightarrow> int list list" where
  "coeff_combinations degree = map (\<lambda>combo. 1 # combo) (product_repeat [-1, 1] degree)"

subsection \<open>\<open>compute_roots\<close> and \<open>save_roots\<close>\<close>

text \<open>
  \<^verbatim>\<open>np.roots\<close> is numpy's eigenvalue solver; it is a parameter of the model: given the
  coefficients it returns the roots or raises. \<open>compute_roots\<close> returns the array and
  the record it logs (the record is written by a worker process of the pool).
\<close>

type_synonym solver = "int list \<Rightarrow> exn + complex list"

definition compute_roots :: "solver \<Rightarrow> int list \<Rightarrow> complex list \<times> log_entry" where
  "compute_roots np_roots poly_coeffs =
     (case np_roots poly_coeffs of
        Inr roots \<Rightarrow> (roots, (DEBUG, ''Computed roots for polynomial coefficients''))
      | Inl e \<Rightarrow> ([], (ERROR, ''Error computing roots for coefficients'')))"

text \<open>
  The loop \<^verbatim>\<open>for roots_batch in pool.imap(compute_roots, coeff_combinations)\<close>:
  \<open>imap\<close> yields the results in the order of its input.
\<close>

fun imap_loop ::
  "solver \<Rightarrow> callback option \<Rightarrow> int \<Rightarrow> int list list \<Rightarrow> complex list list \<Rightarrow> int \<Rightarrow> world
     \<Rightarrow> (exn + complex list list \<times> int) \<times> world" where
  "imap_loop np_roots cb total_polys [] roots processed w = (Inr (roots, processed), w)"
| "imap_loop np_roots cb total_polys (c # cs) roots processed w =
     (case invoke cb (processed + 1) total_polys w of
        (Inl e, w1) \<Rightarrow> (Inl e, w1)
      | (Inr u, w1) \<Rightarrow>
          imap_loop np_roots cb total_polys cs
            (roots @ [fst (compute_roots np_roots c)]) (processed + 1)
            (if (processed + 1) mod 10000 = 0 then logging INFO ''Processed polynomials'' w1
             else w1))"

text \<open>The body of the \<^verbatim>\<open>try\<close> of \<open>save_roots\<close>.\<close>

definition save_roots_try ::
  "solver \<Rightarrow> int \<Rightarrow> string \<Rightarrow> callback option \<Rightarrow> world \<Rightarrow> (exn + unit) \<times> world" where
  "save_roots_try np_roots degree datafile cb w =
     (let w1 = logging INFO ''Starting to save roots'' w
      in if degree < 0 then (Inl ValueError, w1)
         else
           (case imap_loop np_roots cb (2 ^ nat degree) (coeff_combinations (nat degree)) [] 0 w1 of
              (Inl e, w2) \<Rightarrow> (Inl e, w2)
            | (Inr (roots, processed), w2) \<Rightarrow>
                (case np_concatenate roots of
                   Inl e \<Rightarrow> (Inl e, w2)
                 | Inr arr \<Rightarrow>
                     (case np_save datafile arr w2 of
                        (Inl e, w3) \<Rightarrow> (Inl e, w3)
                      | (Inr u, w3) \<Rightarrow> (Inr (), logging INFO ''Successfully saved roots'' w3)))))"

text \<open>
  \<open>save_roots\<close>: the \<^verbatim>\<open>try\<close> with its handler \<^verbatim>\<open>except Exception as e\<close>, which logs and
  falls through; the function returns \<^verbatim>\<open>None\<close> (\<open>Inr ()\<close>) on both paths.
\<close>

definition save_roots ::
  "solver \<Rightarrow> int \<Rightarrow> string \<Rightarrow> callback option \<Rightarrow> world \<Rightarrow> (exn + unit) \<times> world" where
  "save_roots np_roots degree datafile cb w =
     (case save_roots_try np_roots degree datafile cb w of
        (Inl e, w1) \<Rightarrow> (Inr (), logging ERROR ''Error in save_roots'' w1)
      | (Inr u, w1) \<Rightarrow> (Inr (), w1))"

subsection \<open>numpy's two-dimensional histogram\<close>

text \<open>The window of the heat map: \<^verbatim>\<open>X_MAX = 1.8\<close>, \<^verbatim>\<open>X_MIN = -1.8\<close>, \<^verbatim>\<open>Y_MAX = 1.8\<close>, \<^verbatim>\<open>Y_MIN = -1.8\<close>.\<close>

definition X_MAX :: real where "X_MAX = 18 / 10"
definition X_MIN :: real where "X_MIN = - (18 / 10)"
definition Y_MAX :: real where "Y_MAX = 18 / 10"
definition Y_MIN :: real where "Y_MIN = - (18 / 10)"

text \<open>
  \<^verbatim>\<open>np.histogram2d(x, y, bins=n, range=[[xlo, xhi], [ylo, yhi]])\<close>, as numpy computes it
  (\<^verbatim>\<open>histogramdd\<close>): along each axis the edges are \<^verbatim>\<open>np.linspace(lo, hi, n + 1)\<close>; the
  bin number of a value is \<^verbatim>\<open>searchsorted(edges, v, side='right')\<close>, lowered by one for a
  value equal to the last edge; bin numbers \<open>0\<close> and \<open>n + 1\<close> hold the values outside the
  range and are cut away from the result. An integer \<^verbatim>\<open>bins\<close> that is not positive and
  samples of different lengths raise \<^verbatim>\<open>ValueError\<close>.

  \<^verbatim>\<open>np.linspace\<close> computes its edges in double precision, with a rounding after every
  multiplication and addition, so an edge need not be the real number \<open>lo + i * (hi - lo) / n\<close>
  (at size 100 the edge in the middle of the window is \<open>2.2e-16\<close>, not \<open>0\<close>). The edges are
  therefore not computed here: \<^verbatim>\<open>np.linspace\<close> is a parameter \<open>np_linspace\<close> of the
  histogram and of \<open>heat_map\<close>, given the start, the stop and the number of edges.
\<close>

type_synonym linspace_fn = "real \<Rightarrow> real \<Rightarrow> nat \<Rightarrow> real list"

definition searchsorted_right :: "real list \<Rightarrow> real \<Rightarrow> nat" where
  "searchsorted_right a v = length (takeWhile (\<lambda>e. e \<le> v) a)"

definition bin_index :: "linspace_fn \<Rightarrow> real \<Rightarrow> real \<Rightarrow> nat \<Rightarrow> real \<Rightarrow> nat" where
  "bin_index np_linspace lo hi bins v =
     (let edges = np_linspace lo hi (bins + 1);
          k = searchsorted_right edges v
      in if v = last edges then k - 1 else k)"

definition histogram2d ::
  "linspace_fn \<Rightarrow> real list \<Rightarrow> real list \<Rightarrow> int \<Rightarrow> real \<times> real \<Rightarrow> real \<times> real
     \<Rightarrow> exn + nat list list" where
  "histogram2d np_linspace x y bins xrange yrange =
     (if length x \<noteq> length y then Inl ValueError
      else if bins \<le> 0 then Inl ValueError
      else
        (let n = nat bins;
             Ncount = zip (map (bin_index np_linspace (fst xrange) (snd xrange) n) x)
                          (map (bin_index np_linspace (fst yrange) (snd yrange) n) y)
         in Inr (map (\<lambda>i. map (\<lambda>j. count_list Ncount (i, j)) [1..<n + 1]) [1..<n + 1])))"

subsection \<open>\<open>heat_map\<close>\<close>

text \<open>\<^verbatim>\<open>np.log(img + 1)\<close>, cell by cell.\<close>

definition np_log_plus_1 :: "nat list list \<Rightarrow> real list list" where
  "np_log_plus_1 img = map (map (\<lambda>c. ln (real c + 1))) img"

text \<open>The body of the \<^verbatim>\<open>try\<close> of \<open>heat_map\<close>.\<close>

definition heat_map_try ::
  "linspace_fn \<Rightarrow> int \<Rightarrow> string \<Rightarrow> callback option \<Rightarrow> world
     \<Rightarrow> (exn + real list list) \<times> world" where
  "heat_map_try np_linspace size' datafile cb w =
     (let w1 = logging INFO ''Starting heatmap generation'' w
      in case np_load datafile w1 of
           Inl e \<Rightarrow> (Inl e, w1)
         | Inr f \<Rightarrow>
             (let x = map Re f; y = map Im f
              in case histogram2d np_linspace x y size' (X_MIN, X_MAX) (Y_MIN, Y_MAX) of
                   Inl e \<Rightarrow> (Inl e, w1)
                 | Inr img \<Rightarrow>
                     (case invoke cb size' size' w1 of
                        (Inl e, w2) \<Rightarrow> (Inl e, w2)
                      | (Inr u, w2) \<Rightarrow>
                          (Inr (np_log_plus_1 img), logging DEBUG ''Heatmap generated'' w2))))"

text \<open>
  \<open>heat_map\<close>: the \<^verbatim>\<open>try\<close> with its handler, which logs and returns \<^verbatim>\<open>np.array([])\<close>,
  the array without elements.
\<close>

definition heat_map ::
  "linspace_fn \<Rightarrow> int \<Rightarrow> string \<Rightarrow> callback option \<Rightarrow> world
     \<Rightarrow> (exn + real list list) \<times> world" where
  "heat_map np_linspace size' datafile cb w =
     (case heat_map_try np_linspace size' datafile cb w of
        (Inl e, w1) \<Rightarrow> (Inr [], logging ERROR ''Error in heat_map'' w1)
      | (Inr img, w1) \<Rightarrow> (Inr img, w1))"

text \<open>\<^verbatim>\<open>img.size\<close>: the number of elements of the array.\<close>

definition array_size :: "'a list list \<Rightarrow> nat" where
  "array_size img = sum_list (map length img)"

subsection \<open>The frame: input handlers and display\<close>

text \<open>
  The message dialogs the frame shows (their Chinese texts are given in English), and
  the background threads it starts, each named by its target and arguments.
\<close>

datatype dialog = ErrorDialog string | ConfirmDialog string | InfoDialog string

datatype task =
    RunSaveRoots int string
  | RunGenerateHeatmap int string string string int
  | RunSaveAndGenerate int int string string string int

record frame =
  env :: world
  txt_degree :: string
  txt_size :: string
  txt_dpi :: string
  cmb_colormap :: string
  txt_output :: string
  gauge :: int
  dialogs :: "dialog list"
  threads :: "task list"
  canvas :: "real list list option"

definition frame_log :: "level \<Rightarrow> string \<Rightarrow> frame \<Rightarrow> frame" where
  "frame_log l msg fr = fr\<lparr>env := logging l msg (env fr)\<rparr>"

definition show_dialog :: "dialog \<Rightarrow> frame \<Rightarrow> frame" where
  "show_dialog d fr = fr\<lparr>dialogs := dialogs fr @ [d]\<rparr>"

text \<open>
  Python's \<^verbatim>\<open>int(text)\<close> is a parameter \<open>py_int\<close> of the handlers: \<open>None\<close> when \<^verbatim>\<open>int\<close>
  raises \<^verbatim>\<open>ValueError\<close>. Each getter raises \<^verbatim>\<open>ValueError\<close> itself for a number out of
  range and catches it on the spot.
\<close>

definition GetDegree :: "(string \<Rightarrow> int option) \<Rightarrow> frame \<Rightarrow> int option \<times> frame" where
  "GetDegree py_int fr =
     (case (case py_int (txt_degree fr) of
              None \<Rightarrow> Inl ValueError
            | Some degree \<Rightarrow> if degree < 1 \<or> degree > 25 then Inl ValueError else Inr degree) of
        Inr degree \<Rightarrow> (Some degree, frame_log DEBUG ''User input degree'' fr)
      | Inl e \<Rightarrow>
          (None,
           show_dialog (ErrorDialog ''Please enter a valid positive integer as the polynomial degree (1-25).'')
             (frame_log ERROR ''Invalid degree input'' fr)))"

definition GetSizeValue :: "(string \<Rightarrow> int option) \<Rightarrow> frame \<Rightarrow> int option \<times> frame" where
  "GetSizeValue py_int fr =
     (case (case py_int (txt_size fr) of
              None \<Rightarrow> Inl ValueError
            | Some size' \<Rightarrow> if size' < 100 \<or> size' > 10000 then Inl ValueError else Inr size') of
        Inr size' \<Rightarrow> (Some size', frame_log DEBUG ''User input size'' fr)
      | Inl e \<Rightarrow>
          (None,
           show_dialog (ErrorDialog ''Please enter a valid image size (100-10000).'')
             (frame_log ERROR ''Invalid size input'' fr)))"

definition GetDPI :: "(string \<Rightarrow> int option) \<Rightarrow> frame \<Rightarrow> int option \<times> frame" where
  "GetDPI py_int fr =
     (case (case py_int (txt_dpi fr) of
              None \<Rightarrow> Inl ValueError
            | Some dpi \<Rightarrow> if dpi < 50 \<or> dpi > 10000 then Inl ValueError else Inr dpi) of
        Inr dpi \<Rightarrow> (Some dpi, frame_log DEBUG ''User input DPI'' fr)
      | Inl e \<Rightarrow>
          (None,
           show_dialog (ErrorDialog ''Please enter a valid DPI value (50-10000).'')
             (frame_log ERROR ''Invalid DPI input'' fr)))"

text \<open>\<^verbatim>\<open>f"roots_degree_{degree}.npy"\<close>, with Python's decimal \<^verbatim>\<open>str\<close> of an integer.\<close>

fun str_nat :: "nat \<Rightarrow> string" where
  "str_nat n = (if n < 10 then [''0123456789'' ! n] else str_nat (n div 10) @ [''0123456789'' ! (n mod 10)])"

definition str_int :: "int \<Rightarrow> string" where
  "str_int i = (if i < 0 then CHR ''-'' # str_nat (nat (- i)) else str_nat (nat i))"

definition datafile_name :: "int \<Rightarrow> string" where
  "datafile_name degree = ''roots_degree_'' @ str_int degree @ ''.npy''"

text \<open>
  The button handlers. \<open>ok\<close> is the user's answer to the confirmation dialog
  (\<^verbatim>\<open>dlg.ShowModal() == wx.ID_OK\<close>); \<^verbatim>\<open>os.path.exists\<close> reads the files of the world.
\<close>

definition OnSaveRoots :: "(string \<Rightarrow> int option) \<Rightarrow> bool \<Rightarrow> frame \<Rightarrow> frame" where
  "OnSaveRoots py_int ok fr =
     (case GetDegree py_int fr of
        (None, fr1) \<Rightarrow> fr1
      | (Some degree, fr1) \<Rightarrow>
          (let datafile = datafile_name degree;
               fr2 = show_dialog (ConfirmDialog ''Roots will be saved. Continue?'') fr1
           in if ok
              then fr2\<lparr>gauge := 0, threads := threads fr2 @ [RunSaveRoots degree datafile]\<rparr>
              else fr2))"

definition OnGenerateHeatmap :: "(string \<Rightarrow> int option) \<Rightarrow> frame \<Rightarrow> frame" where
  "OnGenerateHeatmap py_int fr =
     (case GetDegree py_int fr of
        (None, fr1) \<Rightarrow> fr1
      | (Some degree, fr1) \<Rightarrow>
          (case GetSizeValue py_int fr1 of
             (None, fr2) \<Rightarrow> fr2
           | (Some size', fr2) \<Rightarrow>
               (let datafile = datafile_name degree
                in if files (env fr2) datafile = None
                   then show_dialog (ErrorDialog ''The data file does not exist. Save the roots first.'') fr2
                   else
                     (let color_map = cmb_colormap fr2; output = txt_output fr2
                      in case GetDPI py_int fr2 of
                           (None, fr3) \<Rightarrow> fr3
                         | (Some dpi, fr3) \<Rightarrow>
                             fr3\<lparr>gauge := 0,
                                 threads := threads fr3 @
                                   [RunGenerateHeatmap size' datafile color_map output dpi]\<rparr>))))"

definition OnSaveAndGenerate :: "(string \<Rightarrow> int option) \<Rightarrow> bool \<Rightarrow> frame \<Rightarrow> frame" where
  "OnSaveAndGenerate py_int ok fr =
     (case GetDegree py_int fr of
        (None, fr1) \<Rightarrow> fr1
      | (Some degree, fr1) \<Rightarrow>
          (case GetSizeValue py_int fr1 of
             (None, fr2) \<Rightarrow> fr2
           | (Some size', fr2) \<Rightarrow>
               (let datafile = datafile_name degree;
                    color_map = cmb_colormap fr2; output = txt_output fr2
                in case GetDPI py_int fr2 of
                     (None, fr3) \<Rightarrow> fr3
                   | (Some dpi, fr3) \<Rightarrow>
                       (let fr4 = show_dialog
                                    (ConfirmDialog ''Roots will be saved and the heat map generated. Continue?'') fr3
                        in if ok
                           then fr4\<lparr>gauge := 0,
                                    threads := threads fr4 @
                                      [RunSaveAndGenerate degree size' datafile color_map output dpi]\<rparr>
                           else fr4))))"

text \<open>
  \<open>DisplayHeatmap\<close>: the figure is cleared; an image with a positive cell is drawn
  (\<^verbatim>\<open>imshow\<close> raises \<^verbatim>\<open>ValueError\<close> for a colour map that matplotlib does not know, the
  parameter \<open>known_cmap\<close>), any other image leaves the axes empty and a warning in the
  log. The handler of the \<^verbatim>\<open>try\<close> logs and shows an error dialog.
\<close>

definition any_positive :: "real list list \<Rightarrow> bool" where
  "any_positive img = (\<exists>row \<in> set img. \<exists>c \<in> set row. 0 < c)"

definition DisplayHeatmap_try ::
  "(string \<Rightarrow> bool) \<Rightarrow> real list list \<Rightarrow> string \<Rightarrow> frame \<Rightarrow> (exn + unit) \<times> frame" where
  "DisplayHeatmap_try known_cmap img color_map fr =
     (let fr1 = fr\<lparr>canvas := None\<rparr>
      in if any_positive img
         then (if known_cmap color_map
               then (Inr (), frame_log DEBUG ''Heatmap displayed successfully.'' (fr1\<lparr>canvas := Some img\<rparr>))
               else (Inl ValueError, fr1))
         else (Inr (), frame_log WARNING ''Heatmap data contains no positive values.'' fr1))"

definition DisplayHeatmap ::
  "(string \<Rightarrow> bool) \<Rightarrow> real list list \<Rightarrow> string \<Rightarrow> frame \<Rightarrow> (exn + unit) \<times> frame" where
  "DisplayHeatmap known_cmap img color_map fr =
     (case DisplayHeatmap_try known_cmap img color_map fr of
        (Inl e, fr1) \<Rightarrow>
          (Inr (), show_dialog (ErrorDialog ''An error occurred while displaying the heat map.'')
                     (frame_log ERROR ''Error in DisplayHeatmap'' fr1))
      | (Inr u, fr1) \<Rightarrow> (Inr (), fr1))"


section \<open>Notions used to state the properties\<close>

text \<open>A root lies in the window of the heat map.\<close>

definition in_window :: "complex \<Rightarrow> bool" where
  "in_window z = (X_MIN \<le> Re z \<and> Re z \<le> X_MAX \<and> Y_MIN \<le> Im z \<and> Im z \<le> Y_MAX)"

text \<open>The pair of bin numbers that \<open>histogram2d\<close> gives a root, and the grid it returns.\<close>

definition bins_of :: "linspace_fn \<Rightarrow> nat \<Rightarrow> complex \<Rightarrow> nat \<times> nat" where
  "bins_of np_linspace n z =
     (bin_index np_linspace X_MIN X_MAX n (Re z), bin_index np_linspace Y_MIN Y_MAX n (Im z))"

definition hist_grid :: "linspace_fn \<Rightarrow> nat \<Rightarrow> complex list \<Rightarrow> nat list list" where
  "hist_grid np_linspace n f =
     map (\<lambda>i. map (\<lambda>j. count_list (map (bins_of np_linspace n) f) (i, j)) [Suc 0..<Suc n])
       [Suc 0..<Suc n]"

text \<open>
  What the histogram needs of \<^verbatim>\<open>np.linspace\<close>: as many edges as asked for, the first one
  the start, the last one the stop, in ascending order. \<open>window_edges_ok\<close> asks it of the
  edges of both axes of the window for a grid of size \<open>n\<close>.
\<close>

definition linspace_ok :: "linspace_fn \<Rightarrow> real \<Rightarrow> real \<Rightarrow> nat \<Rightarrow> bool" where
  "linspace_ok np_linspace start stop num =
     (let edges = np_linspace start stop num
      in length edges = num \<and> hd edges = start \<and> last edges = stop \<and> sorted edges)"

definition window_edges_ok :: "linspace_fn \<Rightarrow> nat \<Rightarrow> bool" where
  "window_edges_ok np_linspace n =
     (linspace_ok np_linspace X_MIN X_MAX (n + 1) \<and> linspace_ok np_linspace Y_MIN Y_MAX (n + 1))"

text \<open>
  The sum of the cell counts, read off the grid that \<open>heat_map\<close> returns: a cell
  \<open>ln (c + 1)\<close> stands for the count \<open>c\<close>.
\<close>

definition total_count :: "real list list \<Rightarrow> real" where
  "total_count img = sum_list (map (\<lambda>row. sum_list (map (\<lambda>v. exp v - 1) row)) img)"

text \<open>The array that \<open>save_roots\<close> hands to \<^verbatim>\<open>np.save\<close>.\<close>

definition all_roots :: "solver \<Rightarrow> nat \<Rightarrow> complex list" where
  "all_roots np_roots d = concat (map (\<lambda>c. fst (compute_roots np_roots c)) (coeff_combinations d))"

text \<open>
  The degree and size fields hold a number within the bounds of the getters; and what a
  handler leaves behind when it turns its input down: an error dialog and an error
  record more than before, no thread started, no file, callback trace, gauge or canvas
  changed.
\<close>

definition degree_in_bounds :: "(string \<Rightarrow> int option) \<Rightarrow> frame \<Rightarrow> bool" where
  "degree_in_bounds py_int fr =
     (case py_int (txt_degree fr) of None \<Rightarrow> False | Some degree \<Rightarrow> 1 \<le> degree \<and> degree \<le> 25)"

definition size_in_bounds :: "(string \<Rightarrow> int option) \<Rightarrow> frame \<Rightarrow> bool" where
  "size_in_bounds py_int fr =
     (case py_int (txt_size fr) of None \<Rightarrow> False | Some size' \<Rightarrow> 100 \<le> size' \<and> size' \<le> 10000)"

definition rejected :: "frame \<Rightarrow> frame \<Rightarrow> bool" where
  "rejected fr fr' =
     (threads fr' = threads fr \<and> files (env fr') = files (env fr) \<and> calls (env fr') = calls (env fr)
      \<and> gauge fr' = gauge fr \<and> canvas fr' = canvas fr
      \<and> (\<exists>msg. dialogs fr' = dialogs fr @ [ErrorDialog msg])
      \<and> (\<exists>entries msg. log (env fr') = log (env fr) @ entries @ [(ERROR, msg)]))"

section \<open>Concrete inputs\<close>

text \<open>
  A solver for degrees one and two by the closed formulas; worlds with and without
  write permission and with some files; the frame as \<^verbatim>\<open>InitUI\<close> fills it; \<^verbatim>\<open>int\<close> on
  plain decimal numerals; edges without rounding; a callback that returns; a short
  catalogue of colour maps.
\<close>

definition closed_form_roots :: solver where
  "closed_form_roots p =
     (case p of
        [a, b] \<Rightarrow> Inr [- of_int b / of_int a]
      | [a, b, c] \<Rightarrow>
          Inr [(- of_int b + csqrt (of_int (b * b - 4 * a * c))) / (2 * of_int a),
               (- of_int b - csqrt (of_int (b * b - 4 * a * c))) / (2 * of_int a)]
      | _ \<Rightarrow> Inl LinAlgError)"

definition fresh_world :: world where
  "fresh_world = \<lparr>files = (\<lambda>p. None), writable = (\<lambda>p. True), log = [], calls = []\<rparr>"

definition read_only_world :: world where
  "read_only_world = \<lparr>files = (\<lambda>p. None), writable = (\<lambda>p. False), log = [], calls = []\<rparr>"

definition test_world :: world where
  "test_world = \<lparr>files = [''test_roots.npy'' \<mapsto> NpyArray [Complex 1 1, Complex (- 1) (- 1), Complex 2 0],
                              ''far_roots.npy'' \<mapsto> NpyArray [Complex 2 0],
                              ''notes.npy'' \<mapsto> NotNpy],
                   writable = (\<lambda>p. True), log = [], calls = []\<rparr>"

definition default_frame :: frame where
  "default_frame = \<lparr>env = fresh_world, txt_degree = ''3'', txt_size = ''800'', txt_dpi = ''300'',
                      cmb_colormap = ''afmhot'', txt_output = ''polyroots.png'', gauge = 0,
                      dialogs = [], threads = [], canvas = None\<rparr>"

fun parse_digits :: "string \<Rightarrow> nat \<Rightarrow> nat option" where
  "parse_digits [] acc = Some acc"
| "parse_digits (c # cs) acc =
     (if 48 \<le> (of_char c :: nat) \<and> (of_char c :: nat) \<le> 57
      then parse_digits cs (10 * acc + (of_char c - 48)) else None)"

definition decimal_int :: "string \<Rightarrow> int option" where
  "decimal_int s =
     (case s of
        [] \<Rightarrow> None
      | c # cs \<Rightarrow>
          if c = CHR ''-'' then (if cs = [] then None else map_option (\<lambda>n. - int n) (parse_digits cs 0))
          else map_option int (parse_digits s 0))"

text \<open>Edges without rounding: \<open>start + i * (stop - start) / (num - 1)\<close> over the reals.\<close>

definition uniform_linspace :: linspace_fn where
  "uniform_linspace start stop num =
     map (\<lambda>i. start + real i * ((stop - start) / real (num - 1))) [0..<num]"

definition record_progress :: callback where
  "record_progress current total_units = None"

definition catalogue :: "string \<Rightarrow> bool" where
  "catalogue name = (name \<in> set [''afmhot'', ''hot'', ''viridis''])"

section \<open>The enumeration of the coefficient vectors\<close>

text \<open>
  \<open>product_repeat\<close> lists the same tuples as the library's \<open>List.n_lists\<close>, each one
  reversed; length, elements and distinctness follow from the library's lemmas.
\<close>

lemma product_repeat_n_lists: "product_repeat pool n = map rev (List.n_lists n pool)"
  by (induction n) (simp_all add: map_concat comp_def)

lemma length_product_repeat: "length (product_repeat pool n) = length pool ^ n"
  by (simp add: product_repeat_n_lists length_n_lists)

lemma set_product_repeat:
  "set (product_repeat pool n) = {ys. length ys = n \<and> set ys \<subseteq> set pool}"
proof -
  have "rev ` {ys. length ys = n \<and> set ys \<subseteq> set pool} = {ys. length ys = n \<and> set ys \<subseteq> set pool}"
  proof (rule set_eqI)
    fix zs :: "'a list"
    show "zs \<in> rev ` {ys. length ys = n \<and> set ys \<subseteq> set pool}
            \<longleftrightarrow> zs \<in> {ys. length ys = n \<and> set ys \<subseteq> set pool}"
    proof
      assume "zs \<in> rev ` {ys. length ys = n \<and> set ys \<subseteq> set pool}"
      then show "zs \<in> {ys. length ys = n \<and> set ys \<subseteq> set pool}" by auto
    next
      assume "zs \<in> {ys. length ys = n \<and> set ys \<subseteq> set pool}"
      then have "rev zs \<in> {ys. length ys = n \<and> set ys \<subseteq> set pool}" by simp
      then have "rev (rev zs) \<in> rev ` {ys. length ys = n \<and> set ys \<subseteq> set pool}" by (rule imageI)
      then show "zs \<in> rev ` {ys. length ys = n \<and> set ys \<subseteq> set pool}" by simp
    qed
  qed
  then show ?thesis by (simp add: product_repeat_n_lists set_n_lists)
qed

lemma distinct_product_repeat: "distinct pool \<Longrightarrow> distinct (product_repeat pool n)"
  by (simp add: product_repeat_n_lists distinct_map distinct_n_lists)

lemma length_coeff_combinations: "length (coeff_combinations d) = 2 ^ d"
  by (simp add: coeff_combinations_def length_product_repeat numeral_2_eq_2)

lemma distinct_coeff_combinations: "distinct (coeff_combinations d)"
  by (simp add: coeff_combinations_def distinct_map distinct_product_repeat)

lemma set_coeff_combinations:
  "set (coeff_combinations d) = {v. length v = d + 1 \<and> hd v = 1 \<and> set (tl v) \<subseteq> {-1, 1}}"
proof (rule set_eqI)
  fix v :: "int list"
  show "v \<in> set (coeff_combinations d)
          \<longleftrightarrow> v \<in> {v. length v = d + 1 \<and> hd v = 1 \<and> set (tl v) \<subseteq> {-1, 1}}"
  proof
    assume "v \<in> set (coeff_combinations d)"
    then show "v \<in> {v. length v = d + 1 \<and> hd v = 1 \<and> set (tl v) \<subseteq> {-1, 1}}"
      by (auto simp: coeff_combinations_def set_product_repeat)
  next
    assume a: "v \<in> {v. length v = d + 1 \<and> hd v = 1 \<and> set (tl v) \<subseteq> {-1, 1}}"
    then obtain x xs where v: "v = x # xs" by (cases v) auto
    with a have "x = 1" "length xs = d" "set xs \<subseteq> {-1, 1}" by auto
    then have "xs \<in> set (product_repeat [-1, 1] d)" by (simp add: set_product_repeat)
    with v \<open>x = 1\<close> show "v \<in> set (coeff_combinations d)"
      by (simp add: coeff_combinations_def)
  qed
qed

text \<open>
  Claim C1. For every degree \<open>d\<close> from 1 to 25 the enumeration that drives \<open>save_roots\<close>
  has exactly \<open>2 ^ d\<close> entries, no entry occurs twice, and its entries are exactly the
  vectors of length \<open>d + 1\<close> that start with 1 and continue with -1 or +1 only: none is
  left out. The enumeration is a function of \<open>d\<close>, so its order is fixed.
\<close>

theorem enumeration_exhaustive:
  assumes "1 \<le> d" and "d \<le> 25"
  shows "length (coeff_combinations d) = 2 ^ d
       \<and> distinct (coeff_combinations d)
       \<and> set (coeff_combinations d) = {v. length v = d + 1 \<and> hd v = 1 \<and> set (tl v) \<subseteq> {-1, 1}}"
  using length_coeff_combinations distinct_coeff_combinations set_coeff_combinations by blast

theorem enumeration_exhaustive_witness:
  "(1::nat) \<le> 2 \<and> (2::nat) \<le> 25
   \<and> coeff_combinations 2 = [[1, -1, -1], [1, -1, 1], [1, 1, -1], [1, 1, 1]]
   \<and> length (coeff_combinations 2) = 2 ^ 2
   \<and> distinct (coeff_combinations 2)
   \<and> set (coeff_combinations 2) = {v. length v = 2 + 1 \<and> hd v = 1 \<and> set (tl v) \<subseteq> {-1, 1}}"
proof -
  have "coeff_combinations 2 = [[1, -1, -1], [1, -1, 1], [1, 1, -1], [1, 1, 1]]"
    by (simp add: coeff_combinations_def eval_nat_numeral)
  moreover have "(1::nat) \<le> 2" and "(2::nat) \<le> 25" by simp_all
  ultimately show ?thesis using enumeration_exhaustive [of 2] by blast
qed

section \<open>The histogram\<close>

text \<open>Edges that meet \<open>linspace_ok\<close> lie between the start and the stop.\<close>

lemma linspace_ok_bounds:
  assumes ok: "linspace_ok np_linspace lo hi (Suc n)" and e: "e \<in> set (np_linspace lo hi (Suc n))"
  shows "lo \<le> e \<and> e \<le> hi"
proof -
  let ?edges = "np_linspace lo hi (Suc n)"
  have len: "length ?edges = Suc n" and hd: "hd ?edges = lo" and last: "last ?edges = hi"
    and srt: "sorted ?edges"
    using ok by (simp_all add: linspace_ok_def Let_def)
  have ne: "?edges \<noteq> []" using len by auto
  from e obtain k where k: "k < length ?edges" and ek: "e = ?edges ! k"
    by (auto simp: in_set_conv_nth)
  have "?edges ! 0 \<le> ?edges ! k" using srt k by (simp add: sorted_nth_mono)
  moreover have "?edges ! k \<le> ?edges ! (length ?edges - 1)"
    using srt k by (intro sorted_nth_mono) simp_all
  moreover have "?edges ! 0 = lo" using hd ne by (simp add: hd_conv_nth)
  moreover have "?edges ! (length ?edges - 1) = hi" using last ne by (simp add: last_conv_nth)
  ultimately show ?thesis using ek by simp
qed

text \<open>A value gets a bin number from 1 to \<open>n\<close> exactly when it lies in the range.\<close>

lemma bin_index_in_range:
  assumes n: "0 < n" and lh: "lo < hi" and ok: "linspace_ok np_linspace lo hi (Suc n)"
  shows "(1 \<le> bin_index np_linspace lo hi n v \<and> bin_index np_linspace lo hi n v \<le> n)
           \<longleftrightarrow> (lo \<le> v \<and> v \<le> hi)"
proof -
  let ?edges = "np_linspace lo hi (Suc n)"
  let ?k = "length (takeWhile (\<lambda>e. e \<le> v) ?edges)"
  have len: "length ?edges = Suc n" and hd: "hd ?edges = lo" and last: "last ?edges = hi"
    using ok by (simp_all add: linspace_ok_def Let_def)
  have ne: "?edges \<noteq> []" using len by auto
  have bi: "\<And>u. bin_index np_linspace lo hi n u
      = (if u = hi then length (takeWhile (\<lambda>e. e \<le> u) ?edges) - 1
         else length (takeWhile (\<lambda>e. e \<le> u) ?edges))"
    by (simp add: bin_index_def searchsorted_right_def Let_def last)
  obtain es where es: "?edges = lo # es"
    using hd ne by (cases ?edges) auto
  have hi_in: "hi \<in> set ?edges" using last ne last_in_set by metis
  have all_le: "\<And>u. hi \<le> u \<Longrightarrow> takeWhile (\<lambda>e. e \<le> u) ?edges = ?edges"
  proof -
    fix u :: real assume "hi \<le> u"
    then have "\<forall>e\<in>set ?edges. e \<le> u" using linspace_ok_bounds [OF ok] by fastforce
    then show "takeWhile (\<lambda>e. e \<le> u) ?edges = ?edges" by simp
  qed
  consider (below) "v < lo" | (above) "hi < v" | (top) "v = hi" | (inside) "lo \<le> v" "v < hi"
    by linarith
  then show ?thesis
  proof cases
    case below
    then have "?k = 0" by (simp add: es)
    with below lh show ?thesis by (simp add: bi)
  next
    case above
    then have "takeWhile (\<lambda>e. e \<le> v) ?edges = ?edges" by (intro all_le) simp
    then have "?k = length ?edges" by (simp only:)
    then have "?k = Suc n" by (simp only: len)
    with above lh show ?thesis by (simp add: bi)
  next
    case top
    then have "takeWhile (\<lambda>e. e \<le> v) ?edges = ?edges" by (intro all_le) simp
    then have "?k = length ?edges" by (simp only:)
    then have "?k = Suc n" by (simp only: len)
    then have "bin_index np_linspace lo hi n v = n" using top by (simp add: bi)
    with top lh n show ?thesis by simp
  next
    case inside
    have pos: "1 \<le> ?k" using inside by (simp add: es)
    have "\<not> hi \<le> v" using inside by simp
    with hi_in have "\<not> (\<forall>e\<in>set ?edges. e \<le> v)" by blast
    then have "takeWhile (\<lambda>e. e \<le> v) ?edges \<noteq> ?edges" by simp
    then have "?k \<noteq> length ?edges" by (metis takeWhile_eq_take take_all order_refl)
    moreover have "?k \<le> length ?edges" by (rule length_takeWhile_le)
    ultimately have "?k \<le> n" using len by simp
    with pos inside show ?thesis by (simp add: bi)
  qed
qed

text \<open>The edges without rounding meet \<open>linspace_ok\<close>.\<close>

lemma uniform_linspace_ok:
  assumes "0 < n" and "lo \<le> hi"
  shows "linspace_ok uniform_linspace lo hi (Suc n)"
proof -
  let ?f = "\<lambda>i. lo + real i * ((hi - lo) / real n)"
  have eq: "uniform_linspace lo hi (Suc n) = map ?f [0..<Suc n]"
    by (simp add: uniform_linspace_def del: upt_Suc)
  have mono: "\<And>i j. i \<le> j \<Longrightarrow> ?f i \<le> ?f j"
  proof -
    fix i j :: nat assume "i \<le> j"
    then have "real i \<le> real j" by simp
    moreover have "0 \<le> (hi - lo) / real n" using assms by simp
    ultimately have "real i * ((hi - lo) / real n) \<le> real j * ((hi - lo) / real n)"
      by (rule mult_right_mono)
    then show "?f i \<le> ?f j" by simp
  qed
  have "sorted_wrt (\<lambda>i j. ?f i \<le> ?f j) [0..<Suc n]"
    by (rule sorted_wrt_mono_rel [OF _ sorted_wrt_upt]) (use mono in auto)
  then have srt: "sorted (map ?f [0..<Suc n])" by (simp only: sorted_map)
  have hd: "hd (map ?f [0..<Suc n]) = lo" by (simp add: hd_map upt_conv_Cons del: upt_Suc)
  have last: "last (map ?f [0..<Suc n]) = hi" using assms(1) by simp
  have len: "length (map ?f [0..<Suc n]) = Suc n" by simp
  show ?thesis unfolding linspace_ok_def Let_def eq using len hd last srt by blast
qed

lemma uniform_window_edges_ok: "0 < n \<Longrightarrow> window_edges_ok uniform_linspace n"
  by (simp add: window_edges_ok_def uniform_linspace_ok X_MIN_def X_MAX_def Y_MIN_def Y_MAX_def)

subsection \<open>The counts of the grid add up to the roots in the window\<close>

lemma sum_list_indicator:
  "sum_list (map (\<lambda>j. if a = j then (1::nat) else 0) [Suc 0..<Suc n]) = (if Suc 0 \<le> a \<and> a \<le> n then 1 else 0)"
  by (induction n) auto

lemma sum_core_counts:
  "sum_list (map (\<lambda>i. sum_list (map (\<lambda>j. count_list ps (i, j)) [Suc 0..<Suc n])) [Suc 0..<Suc n])
     = length (filter (\<lambda>p. 1 \<le> fst p \<and> fst p \<le> n \<and> 1 \<le> snd p \<and> snd p \<le> n) ps)"
proof (induction ps)
  case Nil
  show ?case by simp
next
  case (Cons p ps)
  obtain a b where p: "p = (a, b)" by (cases p)
  have cell: "\<And>i j. count_list (p # ps) (i, j) = count_list ps (i, j) + (if a = i \<and> b = j then 1 else 0)"
    by (simp add: p)
  have row: "\<And>i. sum_list (map (\<lambda>j. count_list (p # ps) (i, j)) [Suc 0..<Suc n])
      = sum_list (map (\<lambda>j. count_list ps (i, j)) [Suc 0..<Suc n])
        + (if a = i then (if 1 \<le> b \<and> b \<le> n then 1 else 0) else 0)"
  proof -
    fix i
    have "sum_list (map (\<lambda>j. count_list (p # ps) (i, j)) [Suc 0..<Suc n])
        = sum_list (map (\<lambda>j. count_list ps (i, j)) [Suc 0..<Suc n])
          + sum_list (map (\<lambda>j. if a = i \<and> b = j then 1 else 0) [Suc 0..<Suc n])"
      unfolding cell by (rule sum_list_addf)
    moreover have "sum_list (map (\<lambda>j. if a = i \<and> b = j then (1::nat) else 0) [Suc 0..<Suc n])
        = (if a = i then (if 1 \<le> b \<and> b \<le> n then 1 else 0) else 0)"
    proof (cases "a = i")
      case True
      then have "(\<lambda>j. if a = i \<and> b = j then (1::nat) else 0) = (\<lambda>j. if b = j then 1 else 0)" by auto
      then show ?thesis using True by (simp add: sum_list_indicator del: upt_Suc)
    next
      case False
      then show ?thesis by simp
    qed
    ultimately show "sum_list (map (\<lambda>j. count_list (p # ps) (i, j)) [Suc 0..<Suc n])
      = sum_list (map (\<lambda>j. count_list ps (i, j)) [Suc 0..<Suc n])
        + (if a = i then (if 1 \<le> b \<and> b \<le> n then 1 else 0) else 0)" by simp
  qed
  have inner: "sum_list (map (\<lambda>i. if a = i then (if 1 \<le> b \<and> b \<le> n then (1::nat) else 0) else 0) [Suc 0..<Suc n])
      = (if 1 \<le> a \<and> a \<le> n \<and> 1 \<le> b \<and> b \<le> n then 1 else 0)"
  proof (cases "1 \<le> b \<and> b \<le> n")
    case True
    then have "(\<lambda>i. if a = i then (if 1 \<le> b \<and> b \<le> n then (1::nat) else 0) else 0)
        = (\<lambda>i. if a = i then 1 else 0)" by auto
    then show ?thesis unfolding sum_list_indicator using True by (simp add: sum_list_indicator del: upt_Suc)
  next
    case False
    then have "(\<lambda>i. if a = i then (if 1 \<le> b \<and> b \<le> n then (1::nat) else 0) else 0) = (\<lambda>i. 0)" by auto
    with False show ?thesis by simp
  qed
  have "sum_list (map (\<lambda>i. sum_list (map (\<lambda>j. count_list (p # ps) (i, j)) [Suc 0..<Suc n])) [Suc 0..<Suc n])
      = sum_list (map (\<lambda>i. sum_list (map (\<lambda>j. count_list ps (i, j)) [Suc 0..<Suc n])) [Suc 0..<Suc n])
        + sum_list (map (\<lambda>i. if a = i then (if 1 \<le> b \<and> b \<le> n then 1 else 0) else 0) [Suc 0..<Suc n])"
    unfolding row by (rule sum_list_addf)
  then show ?case unfolding inner Cons.IH by (simp add: p)
qed

subsection \<open>The histogram that \<open>heat_map\<close> computes\<close>

lemma zip_bins: "zip (map (bin_index np_linspace X_MIN X_MAX n) (map Re f)) (map (bin_index np_linspace Y_MIN Y_MAX n) (map Im f))
    = map (bins_of np_linspace n) f"
  by (induction f) (simp_all add: bins_of_def)

lemma histogram2d_eq:
  assumes "0 < N"
  shows "histogram2d np_linspace (map Re f) (map Im f) N (X_MIN, X_MAX) (Y_MIN, Y_MAX)
     = Inr (map (\<lambda>i. map (\<lambda>j. count_list (map (bins_of np_linspace (nat N)) f) (i, j)) [Suc 0..<Suc (nat N)])
              [Suc 0..<Suc (nat N)])"
  unfolding histogram2d_def Let_def fst_conv snd_conv zip_bins using assms by (simp del: upt_Suc)

lemma bins_in_core:
  assumes "0 < n" and ok: "window_edges_ok np_linspace n"
  shows "(1 \<le> fst (bins_of np_linspace n z) \<and> fst (bins_of np_linspace n z) \<le> n \<and> 1 \<le> snd (bins_of np_linspace n z) \<and> snd (bins_of np_linspace n z) \<le> n)
     \<longleftrightarrow> in_window z"
proof -
  have x: "X_MIN < X_MAX" by (simp add: X_MIN_def X_MAX_def)
  have y: "Y_MIN < Y_MAX" by (simp add: Y_MIN_def Y_MAX_def)
  have okx: "linspace_ok np_linspace X_MIN X_MAX (Suc n)"
    and oky: "linspace_ok np_linspace Y_MIN Y_MAX (Suc n)"
    using ok by (simp_all add: window_edges_ok_def)
  show ?thesis
    using bin_index_in_range [OF assms(1) x okx, of "Re z"]
      bin_index_in_range [OF assms(1) y oky, of "Im z"]
    by (auto simp: bins_of_def in_window_def)
qed

lemma length_filter_map: "length (filter P (map g xs)) = length (filter (\<lambda>x. P (g x)) xs)"
  by (induction xs) simp_all

lemma length_filter_all: "length (filter P xs) = length xs \<longleftrightarrow> (\<forall>x\<in>set xs. P x)"
proof (induction xs)
  case Nil
  show ?case by simp
next
  case (Cons x xs)
  have "length (filter P xs) \<noteq> Suc (length xs)"
    using length_filter_le [of P xs] by linarith
  with Cons show ?case by auto
qed

lemma sum_histogram:
  assumes "0 < n" and "window_edges_ok np_linspace n"
  shows "sum_list (map sum_list (map (\<lambda>i. map (\<lambda>j. count_list (map (bins_of np_linspace n) f) (i, j)) [Suc 0..<Suc n])
              [Suc 0..<Suc n])) = length (filter in_window f)"
proof -
  have "sum_list (map sum_list (map (\<lambda>i. map (\<lambda>j. count_list (map (bins_of np_linspace n) f) (i, j)) [Suc 0..<Suc n])
              [Suc 0..<Suc n]))
      = sum_list (map (\<lambda>i. sum_list (map (\<lambda>j. count_list (map (bins_of np_linspace n) f) (i, j)) [Suc 0..<Suc n]))
              [Suc 0..<Suc n])"
    by (simp add: comp_def del: upt_Suc)
  also have "\<dots> = length (filter (\<lambda>p. 1 \<le> fst p \<and> fst p \<le> n \<and> 1 \<le> snd p \<and> snd p \<le> n) (map (bins_of np_linspace n) f))"
    by (rule sum_core_counts)
  also have "\<dots> = length (filter (\<lambda>z. 1 \<le> fst (bins_of np_linspace n z) \<and> fst (bins_of np_linspace n z) \<le> n
                            \<and> 1 \<le> snd (bins_of np_linspace n z) \<and> snd (bins_of np_linspace n z) \<le> n) f)"
    by (rule length_filter_map)
  also have "\<dots> = length (filter in_window f)"
    using bins_in_core [OF assms] by simp
  finally show ?thesis .
qed

section \<open>\<open>heat_map\<close>\<close>

text \<open>What logging and a callback leave unchanged.\<close>

lemma logging_simps [simp]:
  "files (logging l m w) = files w"
  "writable (logging l m w) = writable w"
  "calls (logging l m w) = calls w"
  "log (logging l m w) = log w @ [(l, m)]"
  by (simp_all add: logging_def)

lemma np_load_logging [simp]: "np_load p (logging l m w) = np_load p w"
  by (simp add: np_load_def)

lemma invoke_cases:
  obtains (returns) w1 where "invoke cb a b w = (Inr (), w1)"
        | (raises) e w1 where "invoke cb a b w = (Inl e, w1)"
proof (cases "invoke cb a b w")
  case (Pair r w1)
  then show thesis by (cases r) (use returns raises in auto)
qed

lemma invoke_returns:
  assumes "\<forall>g. cb = Some g \<longrightarrow> g a b = None"
  shows "invoke cb a b w
     = (Inr (), w\<lparr>calls := calls w @ (case cb of None \<Rightarrow> [] | Some g \<Rightarrow> [(a, b)])\<rparr>)"
  using assms by (cases cb) (simp_all add: invoke_def)

lemma invoke_calls:
  "calls (snd (invoke cb a b w)) = calls w @ (case cb of None \<Rightarrow> [] | Some g \<Rightarrow> [(a, b)])"
  by (cases cb) (simp_all add: invoke_def Let_def split: option.splits)

lemma invoke_keeps [simp]:
  "files (snd (invoke cb a b w)) = files w"
  "writable (snd (invoke cb a b w)) = writable w"
  "log (snd (invoke cb a b w)) = log w"
  by (cases cb; simp add: invoke_def Let_def split: option.splits)+

lemma heat_map_try_ok:
  assumes "0 < N" and "np_load datafile w = Inr f" and "\<forall>g. cb = Some g \<longrightarrow> g N N = None"
  shows "heat_map_try np_linspace N datafile cb w
     = (Inr (np_log_plus_1 (hist_grid np_linspace (nat N) f)),
        logging DEBUG ''Heatmap generated''
          ((logging INFO ''Starting heatmap generation'' w)
             \<lparr>calls := calls w @ (case cb of None \<Rightarrow> [] | Some g \<Rightarrow> [(N, N)])\<rparr>))"
  using assms(2) histogram2d_eq [OF assms(1), of np_linspace f] invoke_returns [OF assms(3)]
  by (simp add: heat_map_try_def Let_def hist_grid_def del: upt_Suc)

lemma heat_map_ok:
  assumes "0 < N" and "np_load datafile w = Inr f" and "\<forall>g. cb = Some g \<longrightarrow> g N N = None"
  shows "heat_map np_linspace N datafile cb w
     = (Inr (np_log_plus_1 (hist_grid np_linspace (nat N) f)),
        logging DEBUG ''Heatmap generated''
          ((logging INFO ''Starting heatmap generation'' w)
             \<lparr>calls := calls w @ (case cb of None \<Rightarrow> [] | Some g \<Rightarrow> [(N, N)])\<rparr>))"
  by (simp add: heat_map_def heat_map_try_ok [OF assms])

lemma count_list_map_filter: "count_list (map g xs) v = length (filter (\<lambda>x. g x = v) xs)"
  by (induction xs) simp_all

lemma hist_grid_nth:
  assumes "i < n" and "j < n"
  shows "length (hist_grid np_linspace n f) = n" and "length (hist_grid np_linspace n f ! i) = n"
    and "hist_grid np_linspace n f ! i ! j = length (filter (\<lambda>z. bins_of np_linspace n z = (Suc i, Suc j)) f)"
  using assms by (simp_all add: hist_grid_def count_list_map_filter del: upt_Suc)

lemma np_log_plus_1_nth:
  assumes "i < length H" and "j < length (H ! i)"
  shows "length (np_log_plus_1 H) = length H" and "length (np_log_plus_1 H ! i) = length (H ! i)"
    and "np_log_plus_1 H ! i ! j = ln (real (H ! i ! j) + 1)"
  using assms by (simp_all add: np_log_plus_1_def)

text \<open>
  Claim C5. For a positive size \<open>N\<close>, a data file that loads and a callback that
  returns, \<open>heat_map\<close> returns a grid of \<open>N\<close> rows of \<open>N\<close> cells, and the cell at row
  \<open>i\<close>, column \<open>j\<close> is \<open>ln (c + 1)\<close> for the count \<open>c\<close> of the histogram at that cell, the
  number of roots to which the edges of \<^verbatim>\<open>np.linspace\<close> give the bin numbers
  \<open>(i + 1, j + 1)\<close>. This holds for whatever edges \<^verbatim>\<open>np.linspace\<close> returns.
\<close>

theorem heat_map_log_grid:
  assumes "0 < N" and "np_load datafile w = Inr f" and "\<forall>g. cb = Some g \<longrightarrow> g N N = None"
  shows "\<exists>H img. histogram2d np_linspace (map Re f) (map Im f) N (X_MIN, X_MAX) (Y_MIN, Y_MAX) = Inr H
     \<and> fst (heat_map np_linspace N datafile cb w) = Inr img
     \<and> length H = nat N \<and> length img = nat N
     \<and> (\<forall>i < nat N. length (H ! i) = nat N \<and> length (img ! i) = nat N
          \<and> (\<forall>j < nat N.
                H ! i ! j = length (filter (\<lambda>z. bins_of np_linspace (nat N) z = (Suc i, Suc j)) f)
              \<and> img ! i ! j = ln (real (H ! i ! j) + 1)))"
proof -
  let ?H = "hist_grid np_linspace (nat N) f"
  let ?img = "np_log_plus_1 ?H"
  have n: "0 < nat N" using assms(1) by simp
  have h: "histogram2d np_linspace (map Re f) (map Im f) N (X_MIN, X_MAX) (Y_MIN, Y_MAX) = Inr ?H"
    using histogram2d_eq [OF assms(1), of np_linspace f] by (simp add: hist_grid_def)
  have r: "fst (heat_map np_linspace N datafile cb w) = Inr ?img"
    by (simp add: heat_map_ok [OF assms])
  have lH: "length ?H = nat N" using hist_grid_nth(1) [of 0 "nat N" 0 np_linspace f] n by simp
  have limg: "length ?img = nat N" using lH by (simp add: np_log_plus_1_def)
  have cells: "\<forall>i < nat N. length (?H ! i) = nat N \<and> length (?img ! i) = nat N
          \<and> (\<forall>j < nat N.
                ?H ! i ! j = length (filter (\<lambda>z. bins_of np_linspace (nat N) z = (Suc i, Suc j)) f)
              \<and> ?img ! i ! j = ln (real (?H ! i ! j) + 1))"
  proof (intro allI impI conjI)
    fix i assume i: "i < nat N"
    show li: "length (?H ! i) = nat N" using hist_grid_nth(2) [OF i i] .
    show "length (?img ! i) = nat N"
      using np_log_plus_1_nth(2) [of i ?H 0] i lH li n by simp
    fix j assume j: "j < nat N"
    show "?H ! i ! j = length (filter (\<lambda>z. bins_of np_linspace (nat N) z = (Suc i, Suc j)) f)"
      using hist_grid_nth(3) [OF i j] .
    show "?img ! i ! j = ln (real (?H ! i ! j) + 1)"
      using np_log_plus_1_nth(3) [of i ?H j] i j lH li by simp
  qed
  show ?thesis using h r lH limg cells by blast
qed

lemma total_count_log: "total_count (np_log_plus_1 H) = real (sum_list (map sum_list H))"
proof -
  have cell: "\<And>c :: nat. exp (ln (real c + 1)) - 1 = real c" by simp
  have row: "\<And>r :: nat list. sum_list (map (\<lambda>v. exp v - 1) (map (\<lambda>c. ln (real c + 1)) r))
      = real (sum_list r)"
  proof -
    fix r :: "nat list"
    show "sum_list (map (\<lambda>v. exp v - 1) (map (\<lambda>c. ln (real c + 1)) r)) = real (sum_list r)"
      by (induction r) (simp_all add: cell)
  qed
  show ?thesis unfolding total_count_def np_log_plus_1_def
    by (induction H) (simp_all add: row del: map_map)
qed

text \<open>
  Claim C4. For every root collection \<open>f\<close> in the data file and every grid size \<open>N > 0\<close>
  (with a callback that returns, and edges of \<^verbatim>\<open>np.linspace\<close> that start and end at the
  bounds of the window in ascending order), \<open>heat_map\<close> returns the logarithms of a
  histogram \<open>H\<close> whose cells add up to the number of roots with real and imaginary part in
  the window from -1.8 to 1.8; the same sum is read off the returned grid by
  \<open>total_count\<close>. A root outside the window has the bin numbers of no cell: it is left
  out, not moved to the border. So the sum is at most the number of roots, and equal to
  it exactly when no root lies outside the window.
\<close>

theorem heat_map_drops_outside:
  assumes "0 < N" and "np_load datafile w = Inr f" and "\<forall>g. cb = Some g \<longrightarrow> g N N = None"
    and "window_edges_ok np_linspace (nat N)"
  shows "\<exists>H. histogram2d np_linspace (map Re f) (map Im f) N (X_MIN, X_MAX) (Y_MIN, Y_MAX) = Inr H
     \<and> fst (heat_map np_linspace N datafile cb w) = Inr (np_log_plus_1 H)
     \<and> total_count (np_log_plus_1 H) = real (sum_list (map sum_list H))
     \<and> sum_list (map sum_list H) = length (filter in_window f)
     \<and> sum_list (map sum_list H) \<le> length f
     \<and> (sum_list (map sum_list H) = length f \<longleftrightarrow> (\<forall>z \<in> set f. in_window z))
     \<and> (\<forall>z \<in> set f. \<not> in_window z \<longrightarrow>
           (\<forall>i < nat N. \<forall>j < nat N. bins_of np_linspace (nat N) z \<noteq> (Suc i, Suc j)))"
proof -
  let ?H = "hist_grid np_linspace (nat N) f"
  have n: "0 < nat N" using assms(1) by simp
  have h: "histogram2d np_linspace (map Re f) (map Im f) N (X_MIN, X_MAX) (Y_MIN, Y_MAX) = Inr ?H"
    using histogram2d_eq [OF assms(1), of np_linspace f] by (simp add: hist_grid_def)
  have r: "fst (heat_map np_linspace N datafile cb w) = Inr (np_log_plus_1 ?H)"
    by (simp add: heat_map_ok [OF assms(1,2,3)])
  have t: "total_count (np_log_plus_1 ?H) = real (sum_list (map sum_list ?H))"
    by (rule total_count_log)
  have s: "sum_list (map sum_list ?H) = length (filter in_window f)"
    unfolding hist_grid_def using n assms(4) by (rule sum_histogram)
  have le: "length (filter in_window f) \<le> length f" by (rule length_filter_le)
  have eq: "length (filter in_window f) = length f \<longleftrightarrow> (\<forall>z \<in> set f. in_window z)"
    by (rule length_filter_all)
  have out: "\<forall>z \<in> set f. \<not> in_window z \<longrightarrow>
           (\<forall>i < nat N. \<forall>j < nat N. bins_of np_linspace (nat N) z \<noteq> (Suc i, Suc j))"
  proof (intro ballI impI allI notI)
    fix z i j
    assume "\<not> in_window z" and "i < nat N" and "j < nat N"
      and "bins_of np_linspace (nat N) z = (Suc i, Suc j)"
    then show False using bins_in_core [OF n assms(4), of z] by simp
  qed
  show ?thesis using h r t s le eq out by (intro exI [of _ ?H]) (simp only: simp_thms)
qed

subsection \<open>A collection with no root in the window\<close>

lemma hist_grid_all_outside:
  assumes "0 < n" and "window_edges_ok np_linspace n" and "\<forall>z\<in>set f. \<not> in_window z"
  shows "hist_grid np_linspace n f = replicate n (replicate n 0)"
proof -
  have zero: "\<And>i j. Suc 0 \<le> i \<Longrightarrow> i \<le> n \<Longrightarrow> Suc 0 \<le> j \<Longrightarrow> j \<le> n
      \<Longrightarrow> count_list (map (bins_of np_linspace n) f) (i, j) = 0"
  proof -
    fix i j assume ij: "Suc 0 \<le> i" "i \<le> n" "Suc 0 \<le> j" "j \<le> n"
    have "(i, j) \<notin> set (map (bins_of np_linspace n) f)"
    proof
      assume "(i, j) \<in> set (map (bins_of np_linspace n) f)"
      then obtain z where z: "z \<in> set f" and b: "bins_of np_linspace n z = (i, j)" by auto
      from b ij have "in_window z" using bins_in_core [OF assms(1,2), of z] by simp
      with assms(3) z show False by blast
    qed
    then show "count_list (map (bins_of np_linspace n) f) (i, j) = 0" by (rule count_notin)
  qed
  have row: "\<And>i. Suc 0 \<le> i \<Longrightarrow> i \<le> n
      \<Longrightarrow> map (\<lambda>j. count_list (map (bins_of np_linspace n) f) (i, j)) [Suc 0..<Suc n] = replicate n 0"
  proof -
    fix i assume i: "Suc 0 \<le> i" "i \<le> n"
    have "map (\<lambda>j. count_list (map (bins_of np_linspace n) f) (i, j)) [Suc 0..<Suc n] = map (\<lambda>j. 0) [Suc 0..<Suc n]"
      by (rule map_cong [OF refl]) (use zero i in auto)
    then show "map (\<lambda>j. count_list (map (bins_of np_linspace n) f) (i, j)) [Suc 0..<Suc n] = replicate n 0"
      by (simp add: map_replicate_const del: upt_Suc)
  qed
  have "hist_grid np_linspace n f = map (\<lambda>i. replicate n 0) [Suc 0..<Suc n]"
    unfolding hist_grid_def by (rule map_cong [OF refl]) (use row in auto)
  then show ?thesis by (simp add: map_replicate_const del: upt_Suc)
qed

lemma np_log_plus_1_zeros: "np_log_plus_1 (replicate n (replicate m 0)) = replicate n (replicate m 0)"
  by (simp add: np_log_plus_1_def)

lemma not_any_positive_zeros: "\<not> any_positive (replicate n (replicate m 0))"
  by (auto simp: any_positive_def)

lemma array_size_replicate: "array_size (replicate n (replicate m x)) = n * m"
  by (simp add: array_size_def sum_list_replicate)

lemma DisplayHeatmap_no_positive:
  assumes "\<not> any_positive img"
  shows "DisplayHeatmap known_cmap img color_map fr
     = (Inr (), frame_log WARNING ''Heatmap data contains no positive values.'' (fr\<lparr>canvas := None\<rparr>))"
  using assms by (simp add: DisplayHeatmap_def DisplayHeatmap_try_def Let_def)

section \<open>\<open>save_roots\<close>\<close>

text \<open>The loop when no call of the callback raises.\<close>

lemma imap_loop_ok:
  assumes "\<forall>k\<in>{1..int (length cs)}. \<forall>f. cb = Some f \<longrightarrow> f (processed + k) total_polys = None"
  shows "\<exists>w'. imap_loop np_roots cb total_polys cs roots processed w
            = (Inr (roots @ map (\<lambda>c. fst (compute_roots np_roots c)) cs, processed + int (length cs)), w')
          \<and> files w' = files w \<and> writable w' = writable w
          \<and> calls w' = calls w @ (case cb of None \<Rightarrow> []
                | Some f \<Rightarrow> map (\<lambda>k. (processed + 1 + int k, total_polys)) [0..<length cs])"
  using assms
proof (induction cs arbitrary: roots processed w)
  case Nil
  then show ?case by (simp split: option.splits)
next
  case (Cons c cs)
  obtain w1 where inv: "invoke cb (processed + 1) total_polys w = (Inr (), w1)"
    and f1: "files w1 = files w" and wr1: "writable w1 = writable w"
    and c1: "calls w1 = calls w @ (case cb of None \<Rightarrow> [] | Some f \<Rightarrow> [(processed + 1, total_polys)])"
  proof (cases cb)
    case None
    then show ?thesis using that [of w] by (simp add: invoke_def)
  next
    case (Some f)
    have "(1::int) \<in> {1..int (length (c # cs))}" by simp
    with Cons.prems Some have "f (processed + 1) total_polys = None" by blast
    with Some show ?thesis
      using that [of "w\<lparr>calls := calls w @ [(processed + 1, total_polys)]\<rparr>"]
      by (simp add: invoke_def)
  qed
  define w2 where "w2 = (if (processed + 1) mod 10000 = 0 then logging INFO ''Processed polynomials'' w1 else w1)"
  define roots2 where "roots2 = roots @ [fst (compute_roots np_roots c)]"
  define p2 where "p2 = processed + 1"
  have prem: "\<forall>k\<in>{1..int (length cs)}. \<forall>f. cb = Some f \<longrightarrow> f (p2 + k) total_polys = None"
  proof (intro ballI allI impI)
    fix k f assume k: "k \<in> {1..int (length cs)}" and f: "cb = Some f"
    then have "k + 1 \<in> {1..int (length (c # cs))}" by simp
    with Cons.prems f have "f (processed + (k + 1)) total_polys = None" by blast
    moreover have "processed + (k + 1) = p2 + k" by (simp add: p2_def)
    ultimately show "f (p2 + k) total_polys = None" by simp
  qed
  from Cons.IH [OF prem, of roots2 w2]
  obtain w' where step:
    "imap_loop np_roots cb total_polys cs roots2 p2 w2
       = (Inr (roots2 @ map (\<lambda>c. fst (compute_roots np_roots c)) cs, p2 + int (length cs)), w')"
    and fw: "files w' = files w2" and ww: "writable w' = writable w2"
    and cw: "calls w' = calls w2 @ (case cb of None \<Rightarrow> []
                | Some f \<Rightarrow> map (\<lambda>k. (p2 + 1 + int k, total_polys)) [0..<length cs])"
    by blast
  have unfold: "imap_loop np_roots cb total_polys (c # cs) roots processed w
       = imap_loop np_roots cb total_polys cs roots2 p2 w2"
    by (simp add: inv w2_def roots2_def p2_def)
  have ar: "p2 + int (length cs) = processed + int (length (c # cs))" by (simp add: p2_def)
  have rs: "roots2 @ map (\<lambda>c. fst (compute_roots np_roots c)) cs
      = roots @ map (\<lambda>c. fst (compute_roots np_roots c)) (c # cs)" by (simp add: roots2_def)
  have res: "imap_loop np_roots cb total_polys (c # cs) roots processed w
       = (Inr (roots @ map (\<lambda>c. fst (compute_roots np_roots c)) (c # cs),
               processed + int (length (c # cs))), w')"
    unfolding unfold step ar rs ..
  have f2: "files w2 = files w" by (simp add: w2_def f1)
  have wr2: "writable w2 = writable w" by (simp add: w2_def wr1)
  have c2: "calls w2 = calls w @ (case cb of None \<Rightarrow> [] | Some f \<Rightarrow> [(processed + 1, total_polys)])"
    by (simp add: w2_def c1)
  have shift: "map (\<lambda>k. (p2 + 1 + int k, total_polys)) [0..<length cs]
      = map (\<lambda>k. (processed + 1 + int k, total_polys)) (map Suc [0..<length cs])"
    by (simp add: comp_def p2_def add.assoc)
  have upt: "[0..<length (c # cs)] = 0 # map Suc [0..<length cs]"
    by (simp add: upt_conv_Cons map_Suc_upt del: upt_Suc)
  have cfin: "calls w' = calls w @ (case cb of None \<Rightarrow> []
                | Some f \<Rightarrow> map (\<lambda>k. (processed + 1 + int k, total_polys)) [0..<length (c # cs)])"
    unfolding cw c2 upt shift by (cases cb) simp_all
  show ?case using res fw ww f2 wr2 cfin by auto
qed


lemma coeff_combinations_nonempty: "coeff_combinations d \<noteq> []"
  using length_coeff_combinations [of d] by (cases "coeff_combinations d") simp_all

lemma save_roots_loop:
  assumes "0 \<le> degree" and "\<forall>g. cb = Some g \<longrightarrow> (\<forall>a b. g a b = None)"
  shows "\<exists>w2. imap_loop np_roots cb (2 ^ nat degree) (coeff_combinations (nat degree)) [] 0
                 (logging INFO ''Starting to save roots'' w)
            = (Inr (map (\<lambda>c. fst (compute_roots np_roots c)) (coeff_combinations (nat degree)),
                    2 ^ nat degree), w2)
          \<and> files w2 = files w \<and> writable w2 = writable w
          \<and> calls w2 = calls w @ (case cb of None \<Rightarrow> []
                | Some g \<Rightarrow> map (\<lambda>k. (int k + 1, 2 ^ nat degree)) [0..<2 ^ nat degree])"
proof -
  have pre: "\<forall>k\<in>{1..int (length (coeff_combinations (nat degree)))}.
      \<forall>g. cb = Some g \<longrightarrow> g (0 + k) (2 ^ nat degree) = None"
    using assms(2) by blast
  from imap_loop_ok [OF pre, of np_roots "[]" "logging INFO ''Starting to save roots'' w"]
  obtain w2 where
    "imap_loop np_roots cb (2 ^ nat degree) (coeff_combinations (nat degree)) [] 0
         (logging INFO ''Starting to save roots'' w)
       = (Inr ([] @ map (\<lambda>c. fst (compute_roots np_roots c)) (coeff_combinations (nat degree)),
               0 + int (length (coeff_combinations (nat degree)))), w2)"
    and "files w2 = files (logging INFO ''Starting to save roots'' w)"
    and "writable w2 = writable (logging INFO ''Starting to save roots'' w)"
    and "calls w2 = calls (logging INFO ''Starting to save roots'' w) @ (case cb of None \<Rightarrow> []
                | Some g \<Rightarrow> map (\<lambda>k. (0 + 1 + int k, 2 ^ nat degree))
                              [0..<length (coeff_combinations (nat degree))])"
    by blast
  then show ?thesis
    by (intro exI [of _ w2]) (cases cb; simp add: length_coeff_combinations add.commute)
qed

lemma save_roots_files:
  assumes "0 \<le> degree" and "\<forall>g. cb = Some g \<longrightarrow> (\<forall>a b. g a b = None)"
  shows "fst (save_roots np_roots degree datafile cb w) = Inr ()
       \<and> files (snd (save_roots np_roots degree datafile cb w))
           = (if writable w (npy_name datafile)
              then (files w)(npy_name datafile \<mapsto> NpyArray (all_roots np_roots (nat degree)))
              else files w)
       \<and> calls (snd (save_roots np_roots degree datafile cb w))
           = calls w @ (case cb of None \<Rightarrow> []
                | Some g \<Rightarrow> map (\<lambda>k. (int k + 1, 2 ^ nat degree)) [0..<2 ^ nat degree])
       \<and> (\<not> writable w (npy_name datafile) \<longrightarrow>
            fst (save_roots_try np_roots degree datafile cb w) = Inl OSError
          \<and> last (log (snd (save_roots np_roots degree datafile cb w))) = (ERROR, ''Error in save_roots''))"
proof -
  from save_roots_loop [OF assms, of np_roots w] obtain w2 where
    loop: "imap_loop np_roots cb (2 ^ nat degree) (coeff_combinations (nat degree)) [] 0
                 (logging INFO ''Starting to save roots'' w)
            = (Inr (map (\<lambda>c. fst (compute_roots np_roots c)) (coeff_combinations (nat degree)),
                    2 ^ nat degree), w2)"
    and f2: "files w2 = files w" and wr2: "writable w2 = writable w"
    and c2: "calls w2 = calls w @ (case cb of None \<Rightarrow> []
                | Some g \<Rightarrow> map (\<lambda>k. (int k + 1, 2 ^ nat degree)) [0..<2 ^ nat degree])"
    by blast
  have conc: "np_concatenate (map (\<lambda>c. fst (compute_roots np_roots c)) (coeff_combinations (nat degree)))
      = Inr (all_roots np_roots (nat degree))"
    by (simp add: np_concatenate_def all_roots_def coeff_combinations_nonempty)
  have body: "save_roots_try np_roots degree datafile cb w
      = (case np_save datafile (all_roots np_roots (nat degree)) w2 of
           (Inl e, w3) \<Rightarrow> (Inl e, w3)
         | (Inr u, w3) \<Rightarrow> (Inr (), logging INFO ''Successfully saved roots'' w3))"
    using assms(1) by (simp add: save_roots_try_def Let_def loop conc)
  show ?thesis
  proof (cases "writable w (npy_name datafile)")
    case True
    then show ?thesis by (simp add: save_roots_def body np_save_def wr2 f2 c2)
  next
    case False
    then show ?thesis by (simp add: save_roots_def body np_save_def wr2 f2 c2)
  qed
qed

lemma length_all_roots:
  assumes "\<forall>c \<in> set (coeff_combinations d). \<exists>rs. np_roots c = Inr rs \<and> length rs = d"
  shows "length (all_roots np_roots d) = d * 2 ^ d"
proof -
  have each: "\<And>c. c \<in> set (coeff_combinations d) \<Longrightarrow> length (fst (compute_roots np_roots c)) = d"
    using assms by (auto simp: compute_roots_def)
  have "length (all_roots np_roots d)
      = sum_list (map (\<lambda>c. length (fst (compute_roots np_roots c))) (coeff_combinations d))"
    by (simp add: all_roots_def length_concat comp_def)
  also have "\<dots> = sum_list (map (\<lambda>c. d) (coeff_combinations d))"
    using each by (simp cong: map_cong)
  also have "\<dots> = d * 2 ^ d"
    by (simp add: sum_list_triv length_coeff_combinations)
  finally show ?thesis .
qed

text \<open>
  Claim C2. For a degree \<open>d\<close> from 1 to 25: when \<^verbatim>\<open>np.roots\<close> returns \<open>d\<close> roots for every
  enumerated polynomial, the callback (if any) returns and the file can be written, the
  file that \<open>save_roots\<close> writes holds the concatenation of the roots of all polynomials,
  and its length is \<open>d * 2 ^ d\<close>.
\<close>

theorem save_roots_collection_length:
  assumes "1 \<le> degree" and "degree \<le> 25"
    and "\<forall>c \<in> set (coeff_combinations (nat degree)). \<exists>rs. np_roots c = Inr rs \<and> length rs = nat degree"
    and "\<forall>g. cb = Some g \<longrightarrow> (\<forall>a b. g a b = None)"
    and "writable w (npy_name datafile)"
  shows "\<exists>roots. files (snd (save_roots np_roots degree datafile cb w)) (npy_name datafile)
                  = Some (NpyArray roots)
     \<and> roots = concat (map (\<lambda>c. fst (compute_roots np_roots c)) (coeff_combinations (nat degree)))
     \<and> int (length roots) = degree * 2 ^ nat degree"
proof -
  have d: "0 \<le> degree" using assms(1) by simp
  have "files (snd (save_roots np_roots degree datafile cb w)) (npy_name datafile)
      = Some (NpyArray (all_roots np_roots (nat degree)))"
    using save_roots_files [OF d assms(4), of np_roots datafile w] assms(5) by simp
  moreover have "int (length (all_roots np_roots (nat degree))) = degree * 2 ^ nat degree"
    using length_all_roots [OF assms(3)] d by simp
  ultimately show ?thesis by (simp add: all_roots_def)
qed

subsection \<open>Saving and loading\<close>

text \<open>
  \<^verbatim>\<open>np.save\<close> writes the file named \<open>npy_name path\<close>: the path itself when it ends in
  \<^verbatim>\<open>.npy\<close>, as every name that the frame builds does.
\<close>

lemma npy_name_endswith: "endswith path ''.npy'' \<Longrightarrow> npy_name path = path"
  by (simp add: npy_name_def)

lemma npy_name_append: "npy_name (s @ ''.npy'') = s @ ''.npy''"
  by (simp add: npy_name_def endswith_def)

lemma npy_name_datafile_name: "npy_name (datafile_name degree) = datafile_name degree"
  unfolding datafile_name_def append_assoc [symmetric] by (rule npy_name_append)

lemma np_load_np_save:
  assumes "writable w (npy_name path)"
  shows "np_load (npy_name path) (snd (np_save path C w)) = Inr C"
  using assms by (simp add: np_load_def np_save_def)

lemma np_load_save_roots:
  assumes "writable w (npy_name datafile)" and "0 \<le> degree"
    and "\<forall>g. cb = Some g \<longrightarrow> (\<forall>a b. g a b = None)"
  shows "np_load (npy_name datafile) (snd (save_roots np_roots degree datafile cb w))
     = Inr (all_roots np_roots (nat degree))"
  using save_roots_files [OF assms(2,3), of np_roots datafile w] assms(1)
  by (simp add: np_load_def)

text \<open>
  Claim C3. Saving a root collection \<open>C\<close> to a file that can be written and loading that
  file gives back \<open>C\<close>: the same length, and every real and imaginary part within
  \<open>1e-6\<close> (they are equal); the file is named by the path itself when the path ends in
  \<^verbatim>\<open>.npy\<close>. The same holds through the two functions of the program: the file that
  \<open>save_roots\<close> writes loads as the collection of all roots that it computed, and
  \<open>heat_map\<close> on that file returns the heat map of exactly this collection.
\<close>

theorem save_load_round_trip:
  assumes "writable w (npy_name datafile)" and "0 \<le> degree"
    and "\<forall>g. cb = Some g \<longrightarrow> (\<forall>a b. g a b = None)"
    and "0 < N" and "\<forall>g. cb' = Some g \<longrightarrow> g N N = None"
  shows "np_load (npy_name datafile) (snd (np_save datafile C w)) = Inr C
     \<and> (\<exists>C'. np_load (npy_name datafile) (snd (np_save datafile C w)) = Inr C'
           \<and> length C' = length C
           \<and> (\<forall>k < length C. \<bar>Re (C' ! k) - Re (C ! k)\<bar> \<le> 1 / 10 ^ 6
                             \<and> \<bar>Im (C' ! k) - Im (C ! k)\<bar> \<le> 1 / 10 ^ 6))
     \<and> (endswith datafile ''.npy'' \<longrightarrow> np_load datafile (snd (np_save datafile C w)) = Inr C)
     \<and> np_load (npy_name datafile) (snd (save_roots np_roots degree datafile cb w))
         = Inr (all_roots np_roots (nat degree))
     \<and> fst (heat_map np_linspace N (npy_name datafile) cb'
               (snd (save_roots np_roots degree datafile cb w)))
         = Inr (np_log_plus_1 (hist_grid np_linspace (nat N) (all_roots np_roots (nat degree))))"
proof -
  have a: "np_load (npy_name datafile) (snd (np_save datafile C w)) = Inr C"
    using assms(1) by (rule np_load_np_save)
  have b: "\<exists>C'. np_load (npy_name datafile) (snd (np_save datafile C w)) = Inr C'
           \<and> length C' = length C
           \<and> (\<forall>k < length C. \<bar>Re (C' ! k) - Re (C ! k)\<bar> \<le> 1 / 10 ^ 6
                             \<and> \<bar>Im (C' ! k) - Im (C ! k)\<bar> \<le> 1 / 10 ^ 6)"
    using a by (intro exI [of _ C]) simp
  have c: "endswith datafile ''.npy'' \<longrightarrow> np_load datafile (snd (np_save datafile C w)) = Inr C"
    using a by (auto simp: npy_name_endswith)
  have d: "np_load (npy_name datafile) (snd (save_roots np_roots degree datafile cb w))
         = Inr (all_roots np_roots (nat degree))"
    using assms(1,2,3) by (rule np_load_save_roots)
  have e: "fst (heat_map np_linspace N (npy_name datafile) cb'
               (snd (save_roots np_roots degree datafile cb w)))
         = Inr (np_log_plus_1 (hist_grid np_linspace (nat N) (all_roots np_roots (nat degree))))"
    by (simp add: heat_map_ok [OF assms(4) d assms(5)])
  show ?thesis using a b c d e by (simp only: simp_thms)
qed

section \<open>Validation of the input fields\<close>

lemma frame_log_simps [simp]:
  "threads (frame_log l m fr) = threads fr"
  "dialogs (frame_log l m fr) = dialogs fr"
  "gauge (frame_log l m fr) = gauge fr"
  "canvas (frame_log l m fr) = canvas fr"
  "txt_degree (frame_log l m fr) = txt_degree fr"
  "txt_size (frame_log l m fr) = txt_size fr"
  "txt_dpi (frame_log l m fr) = txt_dpi fr"
  "files (env (frame_log l m fr)) = files (env fr)"
  "calls (env (frame_log l m fr)) = calls (env fr)"
  "log (env (frame_log l m fr)) = log (env fr) @ [(l, m)]"
  by (simp_all add: frame_log_def)

lemma show_dialog_simps [simp]:
  "threads (show_dialog d fr) = threads fr"
  "dialogs (show_dialog d fr) = dialogs fr @ [d]"
  "gauge (show_dialog d fr) = gauge fr"
  "canvas (show_dialog d fr) = canvas fr"
  "env (show_dialog d fr) = env fr"
  "txt_degree (show_dialog d fr) = txt_degree fr"
  "txt_size (show_dialog d fr) = txt_size fr"
  "txt_dpi (show_dialog d fr) = txt_dpi fr"
  by (simp_all add: show_dialog_def)

lemma GetDegree_rejects:
  assumes "\<not> degree_in_bounds py_int fr"
  shows "GetDegree py_int fr
     = (None, show_dialog (ErrorDialog ''Please enter a valid positive integer as the polynomial degree (1-25).'')
                (frame_log ERROR ''Invalid degree input'' fr))"
  using assms by (auto simp: GetDegree_def degree_in_bounds_def split: option.splits)

lemma GetDegree_accepts:
  assumes "degree_in_bounds py_int fr"
  shows "\<exists>degree. GetDegree py_int fr = (Some degree, frame_log DEBUG ''User input degree'' fr)"
  using assms by (auto simp: GetDegree_def degree_in_bounds_def split: option.splits)

lemma GetSizeValue_rejects:
  assumes "\<not> size_in_bounds py_int fr"
  shows "GetSizeValue py_int fr
     = (None, show_dialog (ErrorDialog ''Please enter a valid image size (100-10000).'')
                (frame_log ERROR ''Invalid size input'' fr))"
  using assms by (auto simp: GetSizeValue_def size_in_bounds_def split: option.splits)

lemma size_in_bounds_frame_log [simp]:
  "size_in_bounds py_int (frame_log l m fr) = size_in_bounds py_int fr"
  by (simp add: size_in_bounds_def)

lemma rejected_degree:
  "rejected fr (show_dialog (ErrorDialog msg) (frame_log ERROR m fr))"
  by (simp add: rejected_def)

lemma rejected_size:
  "rejected fr (show_dialog (ErrorDialog msg) (frame_log ERROR m (frame_log l m' fr)))"
  by (simp add: rejected_def)

lemma handlers_reject:
  assumes "\<not> degree_in_bounds py_int fr \<or> \<not> size_in_bounds py_int fr"
  shows "rejected fr (OnGenerateHeatmap py_int fr)" and "rejected fr (OnSaveAndGenerate py_int ok fr)"
proof -
  show "rejected fr (OnGenerateHeatmap py_int fr)"
  proof (cases "degree_in_bounds py_int fr")
    case False
    then show ?thesis by (simp add: OnGenerateHeatmap_def GetDegree_rejects rejected_degree)
  next
    case True
    then obtain degree where d: "GetDegree py_int fr = (Some degree, frame_log DEBUG ''User input degree'' fr)"
      using GetDegree_accepts by blast
    from True assms have "\<not> size_in_bounds py_int (frame_log DEBUG ''User input degree'' fr)" by simp
    then show ?thesis by (simp add: OnGenerateHeatmap_def d GetSizeValue_rejects rejected_size)
  qed
  show "rejected fr (OnSaveAndGenerate py_int ok fr)"
  proof (cases "degree_in_bounds py_int fr")
    case False
    then show ?thesis by (simp add: OnSaveAndGenerate_def GetDegree_rejects rejected_degree)
  next
    case True
    then obtain degree where d: "GetDegree py_int fr = (Some degree, frame_log DEBUG ''User input degree'' fr)"
      using GetDegree_accepts by blast
    from True assms have "\<not> size_in_bounds py_int (frame_log DEBUG ''User input degree'' fr)" by simp
    then show ?thesis by (simp add: OnSaveAndGenerate_def d GetSizeValue_rejects rejected_size)
  qed
qed

text \<open>
  Claim C6. When the degree field holds no number from 1 to 25, \<open>GetDegree\<close> returns
  \<^verbatim>\<open>None\<close> and \<open>OnSaveRoots\<close> turns the input down; when the size field holds no number from
  100 to 10000, \<open>GetSizeValue\<close> returns \<^verbatim>\<open>None\<close>; and whenever one of the two is the case,
  \<open>OnGenerateHeatmap\<close> and \<open>OnSaveAndGenerate\<close> turn the input down. Turning down means:
  an error dialog and an error record, no thread started and no file touched.
\<close>

theorem out_of_bounds_rejected:
  assumes "\<not> degree_in_bounds py_int fr \<or> \<not> size_in_bounds py_int fr"
  shows "(\<not> degree_in_bounds py_int fr \<longrightarrow>
            fst (GetDegree py_int fr) = None \<and> rejected fr (OnSaveRoots py_int ok fr))
       \<and> (\<not> size_in_bounds py_int fr \<longrightarrow> fst (GetSizeValue py_int fr) = None)
       \<and> rejected fr (OnGenerateHeatmap py_int fr)
       \<and> rejected fr (OnSaveAndGenerate py_int ok fr)"
  using handlers_reject [OF assms]
  by (simp add: GetDegree_rejects GetSizeValue_rejects OnSaveRoots_def rejected_degree)

section \<open>Exceptions and the progress callback\<close>

lemma save_roots_returns: "fst (save_roots np_roots degree datafile cb w) = Inr ()"
  by (simp add: save_roots_def split: prod.splits sum.splits)

lemma heat_map_returns: "\<exists>img. fst (heat_map np_linspace size' datafile cb w) = Inr img"
  by (simp add: heat_map_def split: prod.splits sum.splits)

lemma heat_map_try_load_fails:
  assumes "np_load datafile w = Inl e"
  shows "heat_map_try np_linspace size' datafile cb w = (Inl e, logging INFO ''Starting heatmap generation'' w)"
  using assms by (simp add: heat_map_try_def Let_def)

lemma heat_map_load_fails:
  assumes "np_load datafile w = Inl e"
  shows "heat_map np_linspace size' datafile cb w
     = (Inr [], logging ERROR ''Error in heat_map'' (logging INFO ''Starting heatmap generation'' w))"
  by (simp add: heat_map_def heat_map_try_load_fails [OF assms])

lemma heat_map_try_fails:
  assumes "fst (heat_map_try np_linspace size' datafile cb w) = Inl e"
  shows "fst (heat_map np_linspace size' datafile cb w) = Inr []"
  using assms by (auto simp: heat_map_def split: prod.splits sum.splits)

text \<open>
  Claim C10. For every input, \<open>save_roots\<close> returns \<^verbatim>\<open>None\<close> and \<open>heat_map\<close> returns an
  array: neither raises. When the body of \<open>heat_map\<close> fails, and in particular when the
  data file is missing or malformed, the array returned is the empty one.
\<close>

theorem entry_points_never_raise:
  "fst (save_roots np_roots degree datafile cb w) = Inr ()
   \<and> (\<exists>img. fst (heat_map np_linspace size' datafile' cb' w') = Inr img)
   \<and> ((\<exists>e. fst (heat_map_try np_linspace size' datafile' cb' w') = Inl e) \<longrightarrow>
         fst (heat_map np_linspace size' datafile' cb' w') = Inr [])
   \<and> ((\<exists>e. np_load datafile' w' = Inl e) \<longrightarrow> fst (heat_map np_linspace size' datafile' cb' w') = Inr [])"
  using save_roots_returns heat_map_returns heat_map_try_fails heat_map_load_fails
  by (metis fst_conv)

lemma heat_map_calls:
  assumes "0 < N" and "np_load datafile w = Inr f"
  shows "calls (snd (heat_map np_linspace N datafile cb w)) = calls w @ (case cb of None \<Rightarrow> [] | Some g \<Rightarrow> [(N, N)])"
proof (cases rule: invoke_cases [of cb N N "logging INFO ''Starting heatmap generation'' w"])
  case (returns w1)
  have "calls w1 = calls w @ (case cb of None \<Rightarrow> [] | Some g \<Rightarrow> [(N, N)])"
    using invoke_calls [of cb N N "logging INFO ''Starting heatmap generation'' w"] returns by simp
  then show ?thesis
    using assms(2) histogram2d_eq [OF assms(1), of np_linspace f] returns
    by (simp add: heat_map_def heat_map_try_def Let_def del: upt_Suc)
next
  case (raises e w1)
  have "calls w1 = calls w @ (case cb of None \<Rightarrow> [] | Some g \<Rightarrow> [(N, N)])"
    using invoke_calls [of cb N N "logging INFO ''Starting heatmap generation'' w"] raises by simp
  then show ?thesis
    using assms(2) histogram2d_eq [OF assms(1), of np_linspace f] raises
    by (simp add: heat_map_def heat_map_try_def Let_def del: upt_Suc)
qed

text \<open>
  Claim C9. With a callback that returns, \<open>save_roots\<close> calls it once after every root
  computation, with the number of polynomials processed so far and their total \<open>2 ^ d\<close>:
  the calls are \<open>(1, 2 ^ d), (2, 2 ^ d), \<dots>, (2 ^ d, 2 ^ d)\<close>. With any callback, a
  positive size \<open>N\<close> and a data file that loads, \<open>heat_map\<close> calls it exactly once, with
  \<open>(N, N)\<close>.
\<close>

theorem progress_callback_invocations:
  assumes "0 \<le> degree" and "\<forall>a b. f a b = None" and "0 < N" and "np_load datafile' w' = Inr arr"
  shows "calls (snd (save_roots np_roots degree datafile (Some f) w))
           = calls w @ map (\<lambda>k. (int k + 1, 2 ^ nat degree)) [0..<2 ^ nat degree]
       \<and> calls (snd (heat_map np_linspace N datafile' (Some g) w')) = calls w' @ [(N, N)]"
proof -
  have "\<forall>h. Some f = Some h \<longrightarrow> (\<forall>a b. h a b = None)" using assms(2) by simp
  from save_roots_files [OF assms(1) this, of np_roots datafile w]
  have "calls (snd (save_roots np_roots degree datafile (Some f) w))
           = calls w @ map (\<lambda>k. (int k + 1, 2 ^ nat degree)) [0..<2 ^ nat degree]" by simp
  moreover have "calls (snd (heat_map np_linspace N datafile' (Some g) w')) = calls w' @ [(N, N)]"
    using heat_map_calls [OF assms(3,4), of np_linspace "Some g"] by simp
  ultimately show ?thesis by simp
qed

text \<open>
  Claim C7, amended. When the data file cannot be written, the body of \<open>save_roots\<close>
  raises \<^verbatim>\<open>OSError\<close>, and \<open>save_roots\<close> absorbs it: it returns \<^verbatim>\<open>None\<close>, leaves the
  files as they were and ends the log with an error record. When the data file cannot be
  loaded, the body of \<open>heat_map\<close> raises the error of \<^verbatim>\<open>np.load\<close>, and \<open>heat_map\<close> absorbs
  it: it logs an error record, does not call the callback and returns the empty array.
\<close>

theorem io_failures_absorbed:
  assumes "0 \<le> degree" and "\<forall>g. cb = Some g \<longrightarrow> (\<forall>a b. g a b = None)"
    and "\<not> writable w (npy_name datafile)" and "np_load datafile' w' = Inl e"
  shows "fst (save_roots_try np_roots degree datafile cb w) = Inl OSError
       \<and> fst (save_roots np_roots degree datafile cb w) = Inr ()
       \<and> files (snd (save_roots np_roots degree datafile cb w)) = files w
       \<and> last (log (snd (save_roots np_roots degree datafile cb w))) = (ERROR, ''Error in save_roots'')
       \<and> fst (heat_map_try np_linspace size' datafile' cb' w') = Inl e
       \<and> heat_map np_linspace size' datafile' cb' w'
           = (Inr [], logging ERROR ''Error in heat_map'' (logging INFO ''Starting heatmap generation'' w'))"
  using save_roots_files [OF assms(1,2), of np_roots datafile w] assms(3)
    heat_map_try_load_fails [OF assms(4), of np_linspace size' cb']
    heat_map_load_fails [OF assms(4), of np_linspace size' cb']
  by simp

section \<open>A histogram without a positive cell\<close>

lemma heat_map_all_outside:
  assumes "0 < N" and "np_load datafile w = Inr f" and "\<forall>g. cb = Some g \<longrightarrow> g N N = None"
    and "window_edges_ok np_linspace (nat N)" and "\<forall>z\<in>set f. \<not> in_window z"
  shows "fst (heat_map np_linspace N datafile cb w) = Inr (replicate (nat N) (replicate (nat N) 0))"
proof -
  have "0 < nat N" using assms(1) by simp
  then have "hist_grid np_linspace (nat N) f = replicate (nat N) (replicate (nat N) 0)"
    using assms(4,5) by (rule hist_grid_all_outside)
  then show ?thesis by (simp add: heat_map_ok [OF assms(1,2,3)] np_log_plus_1_zeros)
qed

text \<open>
  Claim C8, amended. When no root of the collection lies in the window (the collection
  may be empty; the edges of \<^verbatim>\<open>np.linspace\<close> start and end at the bounds of the window in
  ascending order), \<open>heat_map\<close> returns the grid of \<open>N\<close> by \<open>N\<close> zeros as its normal result; the
  grid has \<open>N * N\<close> elements, so it is not the empty array of a failure; and
  \<open>DisplayHeatmap\<close> draws nothing for it and records a warning in the log, without a
  dialog or an error.
\<close>

theorem empty_histogram_only_warned:
  assumes "0 < N" and "np_load datafile w = Inr f" and "\<forall>g. cb = Some g \<longrightarrow> g N N = None"
    and "window_edges_ok np_linspace (nat N)" and "\<forall>z\<in>set f. \<not> in_window z"
  shows "fst (heat_map np_linspace N datafile cb w) = Inr (replicate (nat N) (replicate (nat N) 0))
       \<and> array_size (replicate (nat N) (replicate (nat N) (0::real))) = nat N * nat N
       \<and> DisplayHeatmap known_cmap (replicate (nat N) (replicate (nat N) 0)) color_map fr
           = (Inr (), frame_log WARNING ''Heatmap data contains no positive values.'' (fr\<lparr>canvas := None\<rparr>))"
  using heat_map_all_outside [OF assms] DisplayHeatmap_no_positive [OF not_any_positive_zeros]
  by (simp add: array_size_replicate)

section \<open>Concrete runs\<close>

text \<open>The bin numbers of some coordinates on a grid of size 100, and the files of \<open>test_world\<close>.\<close>

lemma bin_index_examples:
  "bin_index uniform_linspace X_MIN X_MAX 100 1 = 78" "bin_index uniform_linspace Y_MIN Y_MAX 100 1 = 78"
  "bin_index uniform_linspace X_MIN X_MAX 100 (- 1) = 23" "bin_index uniform_linspace Y_MIN Y_MAX 100 (- 1) = 23"
  "bin_index uniform_linspace X_MIN X_MAX 100 2 = 101" "bin_index uniform_linspace Y_MIN Y_MAX 100 0 = 51"
  by (simp_all add: bin_index_def uniform_linspace_def searchsorted_right_def
        X_MIN_def X_MAX_def Y_MIN_def Y_MAX_def Let_def upt_rec [of _ "numeral _"])

lemma np_load_test_world:
  "np_load ''test_roots.npy'' test_world = Inr [Complex 1 1, Complex (- 1) (- 1), Complex 2 0]"
  "np_load ''far_roots.npy'' test_world = Inr [Complex 2 0]"
  "np_load ''notes.npy'' test_world = Inl ValueError"
  "np_load ''missing.npy'' test_world = Inl FileNotFoundError"
  by (simp_all add: test_world_def np_load_def)

text \<open>
  Degree 2 with the closed formulas: the file written holds 8 roots.
\<close>

theorem save_roots_collection_length_witness:
  "\<exists>roots. files (snd (save_roots closed_form_roots 2 ''roots_degree_2.npy'' None fresh_world))
              ''roots_degree_2.npy'' = Some (NpyArray roots)
     \<and> length roots = 8"
proof -
  have h1: "(1::int) \<le> 2" and h2: "(2::int) \<le> 25" by simp_all
  have h3: "\<forall>c \<in> set (coeff_combinations (nat 2)). \<exists>rs. closed_form_roots c = Inr rs \<and> length rs = nat 2"
    by (simp add: coeff_combinations_def eval_nat_numeral closed_form_roots_def)
  have h4: "\<forall>g. (None :: callback option) = Some g \<longrightarrow> (\<forall>a b. g a b = None)" by simp
  have n: "npy_name ''roots_degree_2.npy'' = ''roots_degree_2.npy''"
    by (simp add: npy_name_def endswith_def)
  have h5: "writable fresh_world (npy_name ''roots_degree_2.npy'')" by (simp add: fresh_world_def)
  from save_roots_collection_length [OF h1 h2 h3 h4 h5]
  show ?thesis unfolding n by auto
qed

text \<open>
  The two roots of the test file saved and loaded under a name with and a name without
  \<^verbatim>\<open>.npy\<close>, and the roots of degree 2 saved by \<open>save_roots\<close> and loaded.
\<close>

theorem save_load_round_trip_witness:
  "np_load ''roots_degree_2.npy''
      (snd (np_save ''roots_degree_2.npy'' [Complex 1 1, Complex (- 1) (- 1)] fresh_world))
     = Inr [Complex 1 1, Complex (- 1) (- 1)]
   \<and> np_load ''test_roots.npy'' (snd (np_save ''test_roots'' [Complex 1 1, Complex (- 1) (- 1)] fresh_world))
     = Inr [Complex 1 1, Complex (- 1) (- 1)]
   \<and> np_load ''roots_degree_2.npy''
        (snd (save_roots closed_form_roots 2 ''roots_degree_2.npy'' None fresh_world))
     = Inr (all_roots closed_form_roots 2)
   \<and> length (all_roots closed_form_roots 2) = 8"
proof -
  have n1: "npy_name ''roots_degree_2.npy'' = ''roots_degree_2.npy''"
    and n2: "npy_name ''test_roots'' = ''test_roots.npy''"
    by (simp_all add: npy_name_def endswith_def)
  have w1: "writable fresh_world (npy_name ''roots_degree_2.npy'')"
    and w2: "writable fresh_world (npy_name ''test_roots'')"
    by (simp_all add: fresh_world_def)
  have d: "(0::int) \<le> 2" and n: "(0::int) < 100" by simp_all
  have cb: "\<forall>g. (None :: callback option) = Some g \<longrightarrow> (\<forall>a b. g a b = None)" by simp
  have cb': "\<forall>g. (None :: callback option) = Some g \<longrightarrow> g 100 100 = None" by simp
  have len: "length (all_roots closed_form_roots 2) = 8"
    by (simp add: all_roots_def coeff_combinations_def eval_nat_numeral closed_form_roots_def
          compute_roots_def)
  from save_load_round_trip [OF w1 d cb n cb',
      of "[Complex 1 1, Complex (- 1) (- 1)]" closed_form_roots uniform_linspace]
    save_load_round_trip [OF w2 d cb n cb',
      of "[Complex 1 1, Complex (- 1) (- 1)]" closed_form_roots uniform_linspace]
  show ?thesis unfolding n1 n2 using len by simp
qed

text \<open>Loading the path without \<^verbatim>\<open>.npy\<close> finds no file: \<^verbatim>\<open>np.save\<close> has added the suffix.\<close>

lemma load_without_suffix:
  "np_load ''test_roots'' (snd (np_save ''test_roots'' [Complex 1 1, Complex (- 1) (- 1)] fresh_world))
     = Inl FileNotFoundError"
  by (simp add: np_load_def np_save_def npy_name_def endswith_def fresh_world_def)

text \<open>
  Three roots, one of them outside the window, on a grid of size 100: the cells add up
  to 2.
\<close>

theorem heat_map_drops_outside_witness:
  "\<exists>H. histogram2d uniform_linspace (map Re [Complex 1 1, Complex (- 1) (- 1), Complex 2 0])
                     (map Im [Complex 1 1, Complex (- 1) (- 1), Complex 2 0])
                     100 (X_MIN, X_MAX) (Y_MIN, Y_MAX) = Inr H
     \<and> fst (heat_map uniform_linspace 100 ''test_roots.npy'' None test_world) = Inr (np_log_plus_1 H)
     \<and> total_count (np_log_plus_1 H) = 2
     \<and> sum_list (map sum_list H) = 2
     \<and> sum_list (map sum_list H) < length [Complex 1 1, Complex (- 1) (- 1), Complex 2 0]
     \<and> \<not> in_window (Complex 2 0)"
proof -
  have w: "filter in_window [Complex 1 1, Complex (- 1) (- 1), Complex 2 0] = [Complex 1 1, Complex (- 1) (- 1)]"
    and o: "\<not> in_window (Complex 2 0)"
    by (simp_all add: in_window_def X_MIN_def X_MAX_def Y_MIN_def Y_MAX_def)
  have h1: "(0::int) < 100" by simp
  have h3: "\<forall>g. (None :: callback option) = Some g \<longrightarrow> g 100 100 = None" by simp
  have h4: "window_edges_ok uniform_linspace (nat 100)" by (rule uniform_window_edges_ok) simp
  from heat_map_drops_outside [OF h1 np_load_test_world(1) h3 h4]
  show ?thesis unfolding w using o by auto
qed

text \<open>
  The heat map of \<^verbatim>\<open>test_roots.npy\<close> at size 100: the cells of the roots \<open>1 + i\<close> and
  \<open>-1 - i\<close> hold \<open>ln 2\<close>, the corner cell holds \<open>ln 1\<close>.
\<close>

theorem heat_map_log_grid_witness:
  "\<exists>img. fst (heat_map uniform_linspace 100 ''test_roots.npy'' None test_world) = Inr img
     \<and> length img = 100 \<and> length (img ! 77) = 100
     \<and> img ! 77 ! 77 = ln 2 \<and> img ! 22 ! 22 = ln 2 \<and> img ! 0 ! 0 = ln 1"
proof -
  have h1: "(0::int) < 100" by simp
  have h3: "\<forall>g. (None :: callback option) = Some g \<longrightarrow> g 100 100 = None" by simp
  from heat_map_log_grid [OF h1 np_load_test_world(1) h3, of uniform_linspace]
  obtain H img where r: "fst (heat_map uniform_linspace 100 ''test_roots.npy'' None test_world) = Inr img"
    and l: "length img = nat 100"
    and c: "\<forall>i < nat 100. length (H ! i) = nat 100 \<and> length (img ! i) = nat 100
          \<and> (\<forall>j < nat 100.
                H ! i ! j = length (filter (\<lambda>z. bins_of uniform_linspace (nat 100) z = (Suc i, Suc j))
                                     [Complex 1 1, Complex (- 1) (- 1), Complex 2 0])
              \<and> img ! i ! j = ln (real (H ! i ! j) + 1))"
    by blast
  let ?pts = "[Complex 1 1, Complex (- 1) (- 1), Complex 2 0]"
  have b: "bins_of uniform_linspace 100 (Complex 1 1) = (78, 78)" "bins_of uniform_linspace 100 (Complex (- 1) (- 1)) = (23, 23)"
    "bins_of uniform_linspace 100 (Complex 2 0) = (101, 51)"
    by (simp_all add: bins_of_def bin_index_examples)
  have i77: "(77::nat) < nat 100" and i22: "(22::nat) < nat 100" and i0: "(0::nat) < nat 100" by simp_all
  have l77: "length (img ! 77) = nat 100" using c i77 by blast
  have e77: "img ! 77 ! 77
      = ln (real (length (filter (\<lambda>z. bins_of uniform_linspace (nat 100) z = (Suc 77, Suc 77)) ?pts)) + 1)"
    using c i77 by metis
  have e22: "img ! 22 ! 22
      = ln (real (length (filter (\<lambda>z. bins_of uniform_linspace (nat 100) z = (Suc 22, Suc 22)) ?pts)) + 1)"
    using c i22 by metis
  have e0: "img ! 0 ! 0
      = ln (real (length (filter (\<lambda>z. bins_of uniform_linspace (nat 100) z = (Suc 0, Suc 0)) ?pts)) + 1)"
    using c i0 by metis
  have "length (img ! 77) = 100" using l77 by simp
  moreover have "img ! 77 ! 77 = ln 2" unfolding e77 by (simp add: b)
  moreover have "img ! 22 ! 22 = ln 2" unfolding e22 by (simp add: b)
  moreover have "img ! 0 ! 0 = ln 1" unfolding e0 by (simp add: b)
  ultimately show ?thesis using r l by simp
qed

text \<open>
  The degrees 0 and 26 and the sizes 50 and 20000, typed into the frame that \<^verbatim>\<open>InitUI\<close>
  builds, are turned down.
\<close>

theorem out_of_bounds_rejected_witness:
  "\<not> degree_in_bounds decimal_int (default_frame\<lparr>txt_degree := ''0''\<rparr>)
   \<and> rejected (default_frame\<lparr>txt_degree := ''0''\<rparr>)
        (OnSaveRoots decimal_int True (default_frame\<lparr>txt_degree := ''0''\<rparr>))
   \<and> \<not> degree_in_bounds decimal_int (default_frame\<lparr>txt_degree := ''26''\<rparr>)
   \<and> rejected (default_frame\<lparr>txt_degree := ''26''\<rparr>)
        (OnSaveAndGenerate decimal_int True (default_frame\<lparr>txt_degree := ''26''\<rparr>))
   \<and> \<not> size_in_bounds decimal_int (default_frame\<lparr>txt_size := ''50''\<rparr>)
   \<and> rejected (default_frame\<lparr>txt_size := ''50''\<rparr>)
        (OnGenerateHeatmap decimal_int (default_frame\<lparr>txt_size := ''50''\<rparr>))
   \<and> \<not> size_in_bounds decimal_int (default_frame\<lparr>txt_size := ''20000''\<rparr>)
   \<and> rejected (default_frame\<lparr>txt_size := ''20000''\<rparr>)
        (OnSaveAndGenerate decimal_int True (default_frame\<lparr>txt_size := ''20000''\<rparr>))"
proof -
  have d0: "\<not> degree_in_bounds decimal_int (default_frame\<lparr>txt_degree := ''0''\<rparr>)"
    and d26: "\<not> degree_in_bounds decimal_int (default_frame\<lparr>txt_degree := ''26''\<rparr>)"
    by (simp_all add: degree_in_bounds_def decimal_int_def)
  have s50: "\<not> size_in_bounds decimal_int (default_frame\<lparr>txt_size := ''50''\<rparr>)"
    and s20000: "\<not> size_in_bounds decimal_int (default_frame\<lparr>txt_size := ''20000''\<rparr>)"
    by (simp_all add: size_in_bounds_def decimal_int_def)
  show ?thesis
    using d0 d26 s50 s20000
      out_of_bounds_rejected [of decimal_int "default_frame\<lparr>txt_degree := ''0''\<rparr>" True]
      out_of_bounds_rejected [of decimal_int "default_frame\<lparr>txt_degree := ''26''\<rparr>" True]
      out_of_bounds_rejected [of decimal_int "default_frame\<lparr>txt_size := ''50''\<rparr>" True]
      out_of_bounds_rejected [of decimal_int "default_frame\<lparr>txt_size := ''20000''\<rparr>" True]
    by blast
qed

text \<open>With the default fields (degree 3, size 800, DPI 300) the handlers start their thread.\<close>

lemma handlers_accept_example:
  "threads (OnSaveRoots decimal_int True default_frame) = [RunSaveRoots 3 ''roots_degree_3.npy'']"
  "threads (OnSaveAndGenerate decimal_int True default_frame)
     = [RunSaveAndGenerate 3 800 ''roots_degree_3.npy'' ''afmhot'' ''polyroots.png'' 300]"
  by (simp_all add: OnSaveRoots_def OnSaveAndGenerate_def GetDegree_def GetSizeValue_def GetDPI_def
        default_frame_def decimal_int_def frame_log_def show_dialog_def datafile_name_def str_int_def
        Let_def)

text \<open>
  \<open>save_roots\<close> on a world without write permission returns \<^verbatim>\<open>None\<close> and writes no file;
  \<open>heat_map\<close> on a missing file and on a file that is no array returns the empty array.
\<close>

theorem entry_points_never_raise_witness:
  "fst (save_roots closed_form_roots 1 ''roots_degree_1.npy'' None read_only_world) = Inr ()
   \<and> files (snd (save_roots closed_form_roots 1 ''roots_degree_1.npy'' None read_only_world))
        ''roots_degree_1.npy'' = None
   \<and> np_load ''missing.npy'' test_world = Inl FileNotFoundError
   \<and> fst (heat_map uniform_linspace 100 ''missing.npy'' None test_world) = Inr []
   \<and> np_load ''notes.npy'' test_world = Inl ValueError
   \<and> fst (heat_map uniform_linspace 100 ''notes.npy'' None test_world) = Inr []"
proof -
  have d: "(0::int) \<le> 1" by simp
  have cb: "\<forall>g. (None :: callback option) = Some g \<longrightarrow> (\<forall>a b. g a b = None)" by simp
  have f: "files (snd (save_roots closed_form_roots 1 ''roots_degree_1.npy'' None read_only_world))
        ''roots_degree_1.npy'' = None"
    using save_roots_files [OF d cb, of closed_form_roots "''roots_degree_1.npy''" read_only_world]
    by (simp add: read_only_world_def)
  show ?thesis
    using f np_load_test_world
      entry_points_never_raise [of closed_form_roots 1 "''roots_degree_1.npy''" None read_only_world
        uniform_linspace 100 "''missing.npy''" None test_world]
      entry_points_never_raise [of closed_form_roots 1 "''roots_degree_1.npy''" None read_only_world
        uniform_linspace 100 "''notes.npy''" None test_world]
    by simp
qed

text \<open>The calls of the callback for degree 2 and for a heat map of size 100.\<close>

theorem progress_callback_invocations_witness:
  "calls (snd (save_roots closed_form_roots 2 ''roots_degree_2.npy'' (Some record_progress) fresh_world))
     = [(1, 4), (2, 4), (3, 4), (4, 4)]
   \<and> calls (snd (heat_map uniform_linspace 100 ''test_roots.npy'' (Some record_progress) test_world)) = [(100, 100)]"
proof -
  have h1: "(0::int) \<le> 2" and h3: "(0::int) < 100" by simp_all
  have h2: "\<forall>a b. record_progress a b = None" by (simp add: record_progress_def)
  have up: "[0..<2 ^ nat 2] = [0, 1, 2, 3]" by (simp add: eval_nat_numeral upt_rec)
  from progress_callback_invocations [OF h1 h2 h3 np_load_test_world(1),
      of closed_form_roots "''roots_degree_2.npy''" fresh_world uniform_linspace record_progress]
  show ?thesis unfolding up by (simp add: fresh_world_def test_world_def)
qed

text \<open>
  Claim C7 as stated fails: on a world without write permission the body of \<open>save_roots\<close>
  raises \<^verbatim>\<open>OSError\<close>, yet \<open>save_roots\<close> returns \<^verbatim>\<open>None\<close> to its caller; on a file that is no
  array the body of \<open>heat_map\<close> raises \<^verbatim>\<open>ValueError\<close>, yet \<open>heat_map\<close> returns an array to
  its caller.
\<close>

theorem io_failure_counterexample:
  "fst (save_roots_try closed_form_roots 2 ''roots_degree_2.npy'' None read_only_world) = Inl OSError
   \<and> fst (save_roots closed_form_roots 2 ''roots_degree_2.npy'' None read_only_world) = Inr ()
   \<and> fst (heat_map_try uniform_linspace 100 ''notes.npy'' None test_world) = Inl ValueError
   \<and> fst (heat_map uniform_linspace 100 ''notes.npy'' None test_world) = Inr []"
proof -
  have d: "(0::int) \<le> 2" by simp
  have cb: "\<forall>g. (None :: callback option) = Some g \<longrightarrow> (\<forall>a b. g a b = None)" by simp
  have "\<not> writable read_only_world (npy_name ''roots_degree_2.npy'')" by (simp add: read_only_world_def)
  then have "fst (save_roots_try closed_form_roots 2 ''roots_degree_2.npy'' None read_only_world) = Inl OSError"
    using save_roots_files [OF d cb, of closed_form_roots "''roots_degree_2.npy''" read_only_world] by simp
  moreover have "fst (save_roots closed_form_roots 2 ''roots_degree_2.npy'' None read_only_world) = Inr ()"
    by (rule save_roots_returns)
  moreover have "fst (heat_map_try uniform_linspace 100 ''notes.npy'' None test_world) = Inl ValueError"
    by (simp add: heat_map_try_load_fails [OF np_load_test_world(3)])
  moreover have "fst (heat_map uniform_linspace 100 ''notes.npy'' None test_world) = Inr []"
    by (simp add: heat_map_load_fails [OF np_load_test_world(3)])
  ultimately show ?thesis by simp
qed

text \<open>The same for degree 1 and a missing file.\<close>

theorem io_failures_absorbed_witness:
  "fst (save_roots_try closed_form_roots 1 ''roots_degree_1.npy'' None read_only_world) = Inl OSError
   \<and> fst (save_roots closed_form_roots 1 ''roots_degree_1.npy'' None read_only_world) = Inr ()
   \<and> last (log (snd (save_roots closed_form_roots 1 ''roots_degree_1.npy'' None read_only_world)))
       = (ERROR, ''Error in save_roots'')
   \<and> fst (heat_map_try uniform_linspace 100 ''missing.npy'' (Some record_progress) test_world) = Inl FileNotFoundError
   \<and> heat_map uniform_linspace 100 ''missing.npy'' (Some record_progress) test_world
       = (Inr [], logging ERROR ''Error in heat_map'' (logging INFO ''Starting heatmap generation'' test_world))"
proof -
  have d: "(0::int) \<le> 1" by simp
  have cb: "\<forall>g. (None :: callback option) = Some g \<longrightarrow> (\<forall>a b. g a b = None)" by simp
  have w: "\<not> writable read_only_world (npy_name ''roots_degree_1.npy'')" by (simp add: read_only_world_def)
  from io_failures_absorbed [OF d cb w np_load_test_world(4),
      of closed_form_roots uniform_linspace 100 "Some record_progress"]
  show ?thesis by simp
qed

text \<open>The root 2 lies outside the window.\<close>

lemma far_roots_outside: "\<forall>z\<in>set [Complex 2 0]. \<not> in_window z"
  by (simp add: in_window_def X_MAX_def)

text \<open>
  Claim C8 as stated fails: for a collection whose only root lies outside the window,
  \<open>heat_map\<close> returns a grid of 10000 zeros as its normal result, and \<open>DisplayHeatmap\<close>
  returns without a dialog, with a warning in the log as its only trace.
\<close>

theorem empty_result_counterexample:
  "fst (heat_map uniform_linspace 100 ''far_roots.npy'' None test_world)
     = Inr (replicate 100 (replicate 100 0))
   \<and> array_size (replicate 100 (replicate 100 (0::real))) = 10000
   \<and> fst (DisplayHeatmap catalogue (replicate 100 (replicate 100 0)) ''afmhot'' default_frame) = Inr ()
   \<and> dialogs (snd (DisplayHeatmap catalogue (replicate 100 (replicate 100 0)) ''afmhot'' default_frame)) = []
   \<and> log (env (snd (DisplayHeatmap catalogue (replicate 100 (replicate 100 0)) ''afmhot'' default_frame)))
       = [(WARNING, ''Heatmap data contains no positive values.'')]"
proof -
  have h1: "(0::int) < 100" by simp
  have h3: "\<forall>g. (None :: callback option) = Some g \<longrightarrow> g 100 100 = None" by simp
  have h4: "window_edges_ok uniform_linspace (nat 100)" by (rule uniform_window_edges_ok) simp
  have "fst (heat_map uniform_linspace 100 ''far_roots.npy'' None test_world)
      = Inr (replicate (nat 100) (replicate (nat 100) 0))"
    using h1 np_load_test_world(2) h3 h4 far_roots_outside by (rule heat_map_all_outside)
  moreover have "array_size (replicate 100 (replicate 100 (0::real))) = 10000"
    by (simp add: array_size_replicate)
  moreover have "DisplayHeatmap catalogue (replicate 100 (replicate 100 0)) ''afmhot'' default_frame
      = (Inr (), frame_log WARNING ''Heatmap data contains no positive values.'' (default_frame\<lparr>canvas := None\<rparr>))"
    using not_any_positive_zeros by (rule DisplayHeatmap_no_positive)
  ultimately show ?thesis by (simp add: default_frame_def fresh_world_def frame_log_def logging_def)
qed

text \<open>The same with a callback and another colour map.\<close>

theorem empty_histogram_only_warned_witness:
  "fst (heat_map uniform_linspace 100 ''far_roots.npy'' (Some record_progress) test_world)
     = Inr (replicate 100 (replicate 100 0))
   \<and> array_size (replicate 100 (replicate 100 (0::real))) = 100 * 100
   \<and> DisplayHeatmap catalogue (replicate 100 (replicate 100 0)) ''hot'' default_frame
       = (Inr (), frame_log WARNING ''Heatmap data contains no positive values.''
                    (default_frame\<lparr>canvas := None\<rparr>))"
proof -
  have h1: "(0::int) < 100" by simp
  have h3: "\<forall>g. Some record_progress = Some g \<longrightarrow> g 100 100 = None" by (simp add: record_progress_def)
  have h4: "window_edges_ok uniform_linspace (nat 100)" by (rule uniform_window_edges_ok) simp
  from empty_histogram_only_warned [OF h1 np_load_test_world(2) h3 h4 far_roots_outside,
      of catalogue "''hot''" default_frame]
  show ?thesis by simp
qed

end
